theory Spec2Isabelle
  imports Complex_Main "HOL-Library.Word" "HOL-Library.Sublist" "HOL-Library.AList"
begin

section \<open>The skyline output plugin (plugins/outputs/skyline/skyline.go)\<close>

text \<open>
  A shallow embedding of the alert engine of the skyline output plugin: the numeric
  coercion \<open>getFloat\<close>, the value shortening \<open>shortenNumber\<close>, the alert rule with its
  counter (\<open>Alert.Evaluate\<close>), and the monitor with its filter (\<open>Monitor.ProcessMetric\<close>)
  and its evaluation cycle (\<open>Monitor.ShowAlerts\<close>), driven by \<open>Skyline.Write\<close>.

  Conventions of the embedding.
  \<^item> A Go \<open>interface{}\<close> value is a \<open>gvalue\<close>, one constructor per dynamic type.
  \<^item> A \<open>float64\<close> is a real number: rounding, infinities and NaN are not modelled.
    Where a rounding decides (in \<open>shortenNumber\<close>, next to a power of 1000 and at a
    decimal tie of the quotient) the embedding computes the exact value; the values
    used below (6, 7, 950, 1500 and \<open>10^22\<close>) are away from both.
  \<^item> A Go \<open>uint\<close> is a 64-bit word (the width on 64-bit platforms); \<open>+\<close> wraps.
  \<^item> An \<open>error\<close> result is a value of the datatype \<open>error\<close>; a run-time panic is a
    value of the datatype \<open>panic\<close>, returned on the left of a sum.
  \<^item> A method with a pointer receiver takes the receiver and returns it updated.
  \<^item> What the plugin calls in the Go standard library and in govaluate enters as a
    parameter (the record \<open>runtime\<close>, the fields \<open>Vars\<close> and \<open>EvaluateExpr\<close> of a
    compiled expression, the two compiled templates), except the decoding of
    UTF-8, the search of a regular expression, the functions of package \<open>strings\<close>
    and the formats \<open>%.1f\<close> and \<open>%v\<close> (the latter on integers below \<open>10^6\<close>), which
    are modelled below.
\<close>

subsection \<open>Values, errors and panics\<close>

datatype gvalue =
    VFloat64 real
  | VFloat32 real
  | VInt64 int
  | VInt32 int
  | VInt int
  | VUint64 nat
  | VUint32 nat
  | VUint nat
  | VString string
  | VBool bool

datatype error =
    MissingTag string
  | InvalidStatus
  | MissingField string
  | NonNumericType
  | ParseFloatError string
  | EvaluationError string

datatype panic =
    TypeAssertionPanic
  | IndexOutOfRangePanic
  | CompilePanic string

type_synonym uint = "64 word"

type_synonym params = "string \<rightharpoonup> gvalue"

subsection \<open>Characters of a string (package unicode/utf8)\<close>

text \<open>
  A Go string is a sequence of bytes, a \<open>string\<close> here; the regular expressions read
  it as a sequence of characters (runes), each a code point, decoded from UTF-8.

  \<open>utf8.DecodeRuneInString\<close>: the first character of the string and its width in
  bytes. A byte below \<open>0x80\<close> is its own character. A byte that starts no valid
  encoding (the table \<open>first\<close> with its accepted ranges for the second byte) is the
  character \<open>RuneError\<close> of width 1.
\<close>

type_synonym rune = nat

definition RuneError :: rune where
  "RuneError = 0xFFFD"

definition DecodeRuneInString :: "string \<Rightarrow> rune \<times> nat" where
  "DecodeRuneInString s =
     (case s of
        [] \<Rightarrow> (RuneError, 0)
      | c0 # rest \<Rightarrow>
     (let s0 = (of_char c0 :: nat) in
      if s0 < 0x80 then (s0, 1)
      else if s0 < 0xC2 \<or> 0xF4 < s0 then (RuneError, 1)
      else
        let sz = (if s0 < 0xE0 then 2 else if s0 < 0xF0 then 3 else 4 :: nat);
            lo = (if s0 = 0xE0 then 0xA0 else if s0 = 0xF0 then 0x90 else 0x80 :: nat);
            hi = (if s0 = 0xED then 0x9F else if s0 = 0xF4 then 0x8F else 0xBF :: nat)
        in
        if length (c0 # rest) < sz then (RuneError, 1)
        else
          let s1 = (of_char (rest ! 0) :: nat) in
          if s1 < lo \<or> hi < s1 then (RuneError, 1)
          else if sz \<le> 2 then ((s0 mod 32) * 64 + s1 mod 64, 2)
          else
            let s2 = (of_char (rest ! 1) :: nat) in
            if s2 < 0x80 \<or> 0xBF < s2 then (RuneError, 1)
            else if sz \<le> 3 then ((s0 mod 16) * 4096 + (s1 mod 64) * 64 + s2 mod 64, 3)
            else
              let s3 = (of_char (rest ! 2) :: nat) in
              if s3 < 0x80 \<or> 0xBF < s3 then (RuneError, 1)
              else ((s0 mod 8) * 262144 + (s1 mod 64) * 4096 + (s2 mod 64) * 64 +
                    s3 mod 64, 4)))"

text \<open>
  The characters of a string, decoded one after the other, as the matcher steps
  through its input; \<open>runes_from k\<close> first drops the \<open>k\<close> bytes that are left of the
  character decoded last.
\<close>

fun runes_from :: "nat \<Rightarrow> string \<Rightarrow> rune list" where
  "runes_from k [] = []"
| "runes_from k (c # cs) =
     (if 0 < k then runes_from (k - 1) cs
      else case DecodeRuneInString (c # cs) of (r, width) \<Rightarrow> r # runes_from (width - 1) cs)"

definition runes :: "string \<Rightarrow> rune list" where
  "runes s = runes_from 0 s"

subsection \<open>Regular expressions (package regexp)\<close>

text \<open>
  A compiled \<open>*regexp.Regexp\<close>, on the fragment of the syntax built from the empty
  pattern, literal characters, the dot, concatenation, alternation and the star.
  \<open>Never\<close> has no concrete syntax: it is the derivative of a literal by another
  character. A literal and the dot each consume one character of the input, of one
  byte or of several; the dot matches every character but the newline, Go's
  default.
\<close>

datatype regexp =
    Never
  | Empty
  | Lit rune
  | AnyChar
  | Cat regexp regexp
  | Alt regexp regexp
  | Star regexp

fun nullable :: "regexp \<Rightarrow> bool" where
  "nullable Never = False"
| "nullable Empty = True"
| "nullable (Lit c) = False"
| "nullable AnyChar = False"
| "nullable (Cat r s) = (nullable r \<and> nullable s)"
| "nullable (Alt r s) = (nullable r \<or> nullable s)"
| "nullable (Star r) = True"

fun deriv :: "rune \<Rightarrow> regexp \<Rightarrow> regexp" where
  "deriv c Never = Never"
| "deriv c Empty = Never"
| "deriv c (Lit d) = (if c = d then Empty else Never)"
| "deriv c AnyChar = (if c = 0x0A then Never else Empty)"
| "deriv c (Cat r s) =
     (if nullable r then Alt (Cat (deriv c r) s) (deriv c s) else Cat (deriv c r) s)"
| "deriv c (Alt r s) = Alt (deriv c r) (deriv c s)"
| "deriv c (Star r) = Cat (deriv c r) (Star r)"

text \<open>
  The whole of the sequence of characters \<open>s\<close> is a match of \<open>r\<close> (what an anchored
  pattern \<open>^r$\<close> asks).
\<close>

fun FullMatch :: "regexp \<Rightarrow> rune list \<Rightarrow> bool" where
  "FullMatch r [] = nullable r"
| "FullMatch r (c # cs) = FullMatch (deriv c r) cs"

text \<open>Some prefix of \<open>s\<close> is a match of \<open>r\<close>.\<close>

fun match_here :: "regexp \<Rightarrow> rune list \<Rightarrow> bool" where
  "match_here r [] = nullable r"
| "match_here r (c # cs) = (nullable r \<or> match_here (deriv c r) cs)"

text \<open>The search: every start position is tried, leftmost first.\<close>

fun match_from :: "regexp \<Rightarrow> rune list \<Rightarrow> bool" where
  "match_from r [] = match_here r []"
| "match_from r (c # cs) = (match_here r (c # cs) \<or> match_from r cs)"

text \<open>
  \<open>(*Regexp).MatchString\<close>: "reports whether the string s contains any match of the
  regular expression".
\<close>

definition MatchString :: "regexp \<Rightarrow> string \<Rightarrow> bool" where
  "MatchString r s = match_from r (runes s)"

text \<open>
  The compiled form of a pattern made of literal characters and dots only, such as
  the \<open>www.xiachufang.com\<close> of the sample configuration; the empty pattern compiles
  to \<open>Empty\<close>.
\<close>

fun literal_runes :: "rune list \<Rightarrow> regexp" where
  "literal_runes [] = Empty"
| "literal_runes (c # cs) = Cat (if c = 0x2E then AnyChar else Lit c) (literal_runes cs)"

definition literal_pattern :: "string \<Rightarrow> regexp" where
  "literal_pattern s = literal_runes (runes s)"

subsection \<open>Strings and formatting (packages strings and fmt)\<close>

text \<open>\<open>strings.Contains\<close>.\<close>

fun Contains :: "string \<Rightarrow> string \<Rightarrow> bool" where
  "Contains [] sub = (sub = [])"
| "Contains (c # cs) sub = (prefix sub (c # cs) \<or> Contains cs sub)"

text \<open>
  \<open>strings.ReplaceAll s old new\<close> for a non-empty \<open>old\<close>: the non-overlapping
  occurrences of \<open>old\<close>, leftmost first. The first argument counts the characters
  of an occurrence that are still to be skipped.
\<close>

fun replace_from :: "nat \<Rightarrow> string \<Rightarrow> string \<Rightarrow> string \<Rightarrow> string" where
  "replace_from k [] old new = []"
| "replace_from k (c # cs) old new =
     (if 0 < k then replace_from (k - 1) cs old new
      else if prefix old (c # cs) then new @ replace_from (length old - 1) cs old new
      else c # replace_from 0 cs old new)"

text \<open>
  With an empty \<open>old\<close>, \<open>new\<close> is inserted before every character and at the end
  (the strings are byte strings here: characters beyond ASCII are not modelled).
\<close>

definition ReplaceAll :: "string \<Rightarrow> string \<Rightarrow> string \<Rightarrow> string" where
  "ReplaceAll s old new =
     (if old = [] then concat (map (\<lambda>c. new @ [c]) s) @ new
      else replace_from 0 s old new)"

text \<open>The decimal digits of a natural number.\<close>

fun decimal :: "nat \<Rightarrow> string" where
  "decimal n =
     (if n < 10 then [''0123456789'' ! n]
      else decimal (n div 10) @ [''0123456789'' ! (n mod 10)])"

declare decimal.simps [simp del]

text \<open>Rounding to the nearest integer, ties to the even one.\<close>

definition round_half_even :: "real \<Rightarrow> int" where
  "round_half_even x =
     (let f = \<lfloor>x\<rfloor>; d = x - of_int f
      in if d < 1 / 2 then f
         else if 1 / 2 < d then f + 1
         else if even f then f else f + 1)"

text \<open>
  \<open>fmt.Sprintf("%.1f", x)\<close>: the sign, then the tenths of \<open>\<bar>x\<bar>\<close> rounded to the
  nearest, written with one digit after the point.
\<close>

definition Sprintf_1f :: "real \<Rightarrow> string" where
  "Sprintf_1f x =
     (let t = nat (round_half_even (\<bar>x\<bar> * 10))
      in (if x < 0 then ''-'' else []) @ decimal (t div 10) @ ''.'' @ decimal (t mod 10))"

subsection \<open>Compiled expressions and the runtime the plugin calls\<close>

text \<open>
  A compiled \<open>*govaluate.EvaluableExpression\<close>: the variable tokens that \<open>Vars()\<close>
  returns, and \<open>Evaluate\<close> as a function of the parameters, an \<open>error\<close> on the left.
\<close>

record EvaluableExpression =
  Vars :: "string list"
  EvaluateExpr :: "params \<Rightarrow> error + gvalue"

text \<open>
  The library functions that are taken as parameters:
  \<^item> \<open>ParseInt s\<close> is \<open>strconv.ParseInt(s, 0, 64)\<close>, \<open>None\<close> for an error;
  \<^item> \<open>ParseFloat s\<close> is \<open>strconv.ParseFloat(s, 64)\<close>, \<open>None\<close> for an error;
  \<^item> \<open>FormatG x\<close> is \<open>fmt.Sprintf("%v", x)\<close> of a \<open>float64\<close> that is not an integer of
    fewer than seven digits (the shortest representation that reads back);
  \<^item> \<open>TimeNow\<close> is \<open>time.Now().Format(time.RFC3339)\<close>, taken to be the same for the
    messages of one cycle;
  \<^item> \<open>PercentileOf vs p\<close> is the percentile estimate of the running statistics;
  \<^item> \<open>Compile\<close> is \<open>regexp.Compile\<close>, \<open>None\<close> for an error;
  \<^item> \<open>NewEvaluableExpression\<close> is govaluate's parser, \<open>None\<close> for an error.
\<close>

record runtime =
  ParseInt :: "string \<Rightarrow> int option"
  ParseFloat :: "string \<Rightarrow> real option"
  FormatG :: "real \<Rightarrow> string"
  TimeNow :: string
  PercentileOf :: "real list \<Rightarrow> nat \<Rightarrow> real"
  Compile :: "string \<Rightarrow> regexp option"
  NewEvaluableExpression :: "string \<Rightarrow> EvaluableExpression option"

text \<open>
  \<open>fmt.Sprintf("%v", x)\<close> of a \<open>float64\<close>: format \<open>%g\<close> with the shortest precision.
  An integer of magnitude below \<open>10^6\<close> is written with its digits and no exponent.
\<close>

definition Sprintf_v :: "runtime \<Rightarrow> real \<Rightarrow> string" where
  "Sprintf_v rt x =
     (if x \<in> \<int> \<and> \<bar>x\<bar> < 1000000
      then (if x < 0 then ''-'' else []) @ decimal (nat \<lfloor>\<bar>x\<bar>\<rfloor>)
      else FormatG rt x)"

subsection \<open>getFloat and shortenNumber\<close>

fun getFloat :: "runtime \<Rightarrow> gvalue \<Rightarrow> error + real" where
  "getFloat rt (VFloat64 i) = Inr i"
| "getFloat rt (VFloat32 i) = Inr i"
| "getFloat rt (VInt64 i) = Inr (of_int i)"
| "getFloat rt (VInt32 i) = Inr (of_int i)"
| "getFloat rt (VInt i) = Inr (of_int i)"
| "getFloat rt (VUint64 i) = Inr (of_nat i)"
| "getFloat rt (VUint32 i) = Inr (of_nat i)"
| "getFloat rt (VUint i) = Inr (of_nat i)"
| "getFloat rt (VString i) =
     (case ParseFloat rt i of None \<Rightarrow> Inl (ParseFloatError i) | Some x \<Rightarrow> Inr x)"
| "getFloat rt v = Inl NonNumericType"

text \<open>
  \<open>shortenNumber\<close>. The type assertion \<open>v.(float64)\<close> panics on any other dynamic
  type. \<open>exp\<close> is \<open>uint(math.Log(fv) / math.Log(1000))\<close>; the index \<open>exp-1\<close> into the
  six bytes of \<open>"kmgtpe"\<close> is computed on a \<open>uint\<close>, so \<open>exp = 0\<close> wraps to an index
  out of range as every \<open>exp\<close> above 6 is.
\<close>

definition shortenNumber :: "runtime \<Rightarrow> gvalue \<Rightarrow> panic + string" where
  "shortenNumber rt v =
     (case v of
        VFloat64 fv \<Rightarrow>
          if fv < 1000 then Inr (Sprintf_v rt fv)
          else
            let exp = nat \<lfloor>ln fv / ln 1000\<rfloor>
            in if exp = 0 \<or> length ''kmgtpe'' \<le> exp - 1 then Inl IndexOutOfRangePanic
               else Inr (Sprintf_1f (fv / 1000 ^ exp) @ [''kmgtpe'' ! (exp - 1)])
      | _ \<Rightarrow> Inl TypeAssertionPanic)"

subsection \<open>Running statistics (statsd.RunningStats)\<close>

text \<open>
  Modelled from the spec: the type \<open>statsd.RunningStats\<close> of plugins/inputs/statsd is
  not among the sources. The spec gives it as a capability with \<open>add(value)\<close>,
  \<open>sum()\<close> and \<open>percentile(p)\<close>: the model keeps the values added, in order; the sum
  is their sum and the percentile estimate is the runtime's \<open>PercentileOf\<close>.
\<close>

record RunningStats =
  observed :: "real list"

text \<open>Modelled from the spec: \<open>add(value)\<close> of the statistics capability.\<close>

definition AddValue :: "RunningStats \<Rightarrow> real \<Rightarrow> RunningStats" where
  "AddValue rs v = rs\<lparr>observed := observed rs @ [v]\<rparr>"

text \<open>Modelled from the spec: \<open>sum()\<close> of the statistics capability.\<close>

definition Sum :: "RunningStats \<Rightarrow> real" where
  "Sum rs = sum_list (observed rs)"

text \<open>
  Modelled from the spec: \<open>percentile(p)\<close> of the statistics capability, an estimate
  that the spec does not define further.
\<close>

definition Percentile :: "runtime \<Rightarrow> RunningStats \<Rightarrow> nat \<Rightarrow> real" where
  "Percentile rt rs p = PercentileOf rt (observed rs) p"

subsection \<open>Alert\<close>

record Alert =
  Formula :: string
  Threshold :: uint
  IsAlerting :: bool
  Count :: uint
  expression :: EvaluableExpression

text \<open>
  The loop of \<open>Alert.Evaluate\<close> over \<open>a.expression.Vars()\<close>: for each variable that has
  a parameter, every occurrence of its name in the text so far is replaced by the
  name followed by the shortened value in parentheses.
\<close>

fun annotate :: "runtime \<Rightarrow> params \<Rightarrow> string \<Rightarrow> string list \<Rightarrow> panic + string" where
  "annotate rt ps s [] = Inr s"
| "annotate rt ps s (v # vs) =
     (case ps v of
        None \<Rightarrow> annotate rt ps s vs
      | Some val \<Rightarrow>
          (case shortenNumber rt val of
             Inl p \<Rightarrow> Inl p
           | Inr n \<Rightarrow> annotate rt ps (ReplaceAll s v (v @ ''('' @ n @ '')'')) vs))"

text \<open>
  \<open>Alert.Evaluate\<close>: the annotated formula, and the counter reset to 0 when the
  expression fails or is false, incremented when it is true. The type assertion
  \<open>result.(bool)\<close> is reached only without an error and panics on a result that is
  not a \<open>bool\<close>.
\<close>

definition Evaluate :: "runtime \<Rightarrow> Alert \<Rightarrow> params \<Rightarrow> panic + (Alert \<times> string)" where
  "Evaluate rt a ps =
     (case annotate rt ps (Formula a) (Vars (expression a)) of
        Inl p \<Rightarrow> Inl p
      | Inr s \<Rightarrow>
          (case EvaluateExpr (expression a) ps of
             Inl err \<Rightarrow> Inr (a\<lparr>Count := 0\<rparr>, s)
           | Inr (VBool result) \<Rightarrow>
               if \<not> result then Inr (a\<lparr>Count := 0\<rparr>, s)
               else Inr (a\<lparr>Count := Count a + 1\<rparr>, s)
           | Inr _ \<Rightarrow> Inl TypeAssertionPanic))"

subsection \<open>Monitor\<close>

text \<open>
  A \<open>telegraf.Metric\<close>, as far as the plugin reads it: \<open>GetTag\<close> and \<open>GetField\<close>.
\<close>

record Metric =
  Tags :: "string \<rightharpoonup> string"
  Fields :: "string \<rightharpoonup> gvalue"

definition GetTag :: "Metric \<Rightarrow> string \<Rightarrow> string option" where
  "GetTag metric key = Tags metric key"

definition GetField :: "Metric \<Rightarrow> string \<Rightarrow> gvalue option" where
  "GetField metric key = Fields metric key"

text \<open>
  The map \<open>alerts\<close> is an association list keyed by the formula; the order of the
  list stands for the order in which \<open>range\<close> visits the map, which Go leaves open.
  The map \<open>fields\<close> is the field \<open>mfields\<close> (the record package owns the name
  \<open>fields\<close>).
\<close>

record Monitor =
  Name :: string
  Host :: string
  URI :: string
  Alerts :: "string list"
  regexpHost :: regexp
  regexpURI :: regexp
  mfields :: "string \<rightharpoonup> RunningStats"
  alerts :: "(string \<times> Alert) list"

definition addField :: "runtime \<Rightarrow> Monitor \<Rightarrow> string \<Rightarrow> gvalue \<Rightarrow> Monitor \<times> error option" where
  "addField rt m key v =
     (case getFloat rt v of
        Inl err \<Rightarrow> (m, Some err)
      | Inr v64 \<Rightarrow>
          let rs = (case mfields m key of None \<Rightarrow> \<lparr>observed = []\<rparr> | Some rs \<Rightarrow> rs)
          in (m\<lparr>mfields := (mfields m)(key \<mapsto> AddValue rs v64)\<rparr>, None))"

definition resetFields :: "Monitor \<Rightarrow> Monitor" where
  "resetFields m = m\<lparr>mfields := Map.empty\<rparr>"

text \<open>
  \<open>Monitor.ProcessMetric\<close>: the monitor after the call and the error returned
  (\<open>None\<close> for \<open>nil\<close>). The result of \<open>addField\<close> is not looked at: only its effect on
  the monitor is kept.
\<close>

definition ProcessMetric :: "runtime \<Rightarrow> Monitor \<Rightarrow> Metric \<Rightarrow> Monitor \<times> error option" where
  "ProcessMetric rt m metric =
     (case GetTag metric ''host'' of
        None \<Rightarrow> (m, Some (MissingTag ''host''))
      | Some host \<Rightarrow>
     (case GetTag metric ''uri'' of
        None \<Rightarrow> (m, Some (MissingTag ''uri''))
      | Some uri \<Rightarrow>
     if \<not> MatchString (regexpHost m) host \<or> \<not> MatchString (regexpURI m) uri
     then (m, None)
     else
     (case GetTag metric ''status'' of
        None \<Rightarrow> (m, Some (MissingTag ''status''))
      | Some status \<Rightarrow>
     (case ParseInt rt status of
        None \<Rightarrow> (m, Some InvalidStatus)
      | Some statusInt \<Rightarrow>
     if 200 \<le> statusInt \<and> statusInt < 300 then
       (case GetField metric ''rt_p95'' of
          None \<Rightarrow> (m, Some (MissingField ''rt_p95''))
        | Some requestTime \<Rightarrow> (fst (addField rt m ''rt_p95'' requestTime), None))
     else if 400 \<le> statusInt then
       (case GetField metric ''rt_count'' of
          None \<Rightarrow> (m, Some (MissingField ''rt_count''))
        | Some requestCount \<Rightarrow>
            (fst (addField rt m (''status_'' @ status) requestCount), None))
     else (m, None)))))"

subsection \<open>Templates and ShowAlerts\<close>

text \<open>
  A compiled \<open>*template.Template\<close> is the function that \<open>Execute\<close> computes from the
  message. A template reads exported fields only, and no cycle changes those of the
  monitor, so the message carries the monitor as it is when the cycle starts; the
  alert is carried as it is when the message is rendered.
\<close>

record TemplateMessage =
  Now :: string
  Monitor :: Monitor
  Alert :: Alert
  EvaluatedFormula :: string

record TemplateConfig =
  OK :: string
  ALERT :: string
  tOK :: "TemplateMessage \<Rightarrow> string"
  tALERT :: "TemplateMessage \<Rightarrow> string"

definition RenderTemplate ::
  "runtime \<Rightarrow> (TemplateMessage \<Rightarrow> string) \<Rightarrow> Monitor \<Rightarrow> Alert \<Rightarrow> string \<Rightarrow> string" where
  "RenderTemplate rt tpl monitor alert evaluatedFormula =
     tpl \<lparr>Now = TimeNow rt, Monitor = monitor, Alert = alert,
          EvaluatedFormula = evaluatedFormula\<rparr>"

text \<open>The parameters that \<open>ShowAlerts\<close> builds from the fields.\<close>

definition field_params :: "runtime \<Rightarrow> (string \<rightharpoonup> RunningStats) \<Rightarrow> params" where
  "field_params rt fs =
     (\<lambda>field. case fs field of
        None \<Rightarrow> None
      | Some stats \<Rightarrow>
          if prefix ''status_'' field then Some (VFloat64 (Sum stats))
          else if Contains field ''rt_'' then Some (VFloat64 (Percentile rt stats 80))
          else None)"

text \<open>
  The body of the loop of \<open>ShowAlerts\<close> over the alerts: the alert after the cycle
  and the messages appended to \<open>outputs\<close> for it.
\<close>

definition alert_cycle ::
  "runtime \<Rightarrow> TemplateConfig \<Rightarrow> Monitor \<Rightarrow> params \<Rightarrow> Alert \<Rightarrow> panic + (Alert \<times> string list)" where
  "alert_cycle rt template m ps alert =
     (case Evaluate rt alert ps of
        Inl p \<Rightarrow> Inl p
      | Inr (a, evaluatedFormula) \<Rightarrow>
          if Threshold a \<le> Count a then
            let a' = a\<lparr>IsAlerting := True\<rparr>
            in Inr (a', [RenderTemplate rt (tALERT template) m a' evaluatedFormula])
          else if IsAlerting a then
            let a' = a\<lparr>IsAlerting := False\<rparr>
            in Inr (a', [RenderTemplate rt (tOK template) m a' evaluatedFormula])
          else Inr (a, []))"

fun range_alerts ::
  "runtime \<Rightarrow> TemplateConfig \<Rightarrow> Monitor \<Rightarrow> params \<Rightarrow> (string \<times> Alert) list \<Rightarrow>
   panic + ((string \<times> Alert) list \<times> string list)" where
  "range_alerts rt template m ps [] = Inr ([], [])"
| "range_alerts rt template m ps ((formula, alert) # rest) =
     (case alert_cycle rt template m ps alert of
        Inl p \<Rightarrow> Inl p
      | Inr (a', out) \<Rightarrow>
          (case range_alerts rt template m ps rest of
             Inl p \<Rightarrow> Inl p
           | Inr (rest', outs) \<Rightarrow> Inr ((formula, a') # rest', out @ outs)))"

definition ShowAlerts ::
  "runtime \<Rightarrow> TemplateConfig \<Rightarrow> Monitor \<Rightarrow> panic + (Monitor \<times> string list)" where
  "ShowAlerts rt template m =
     (case range_alerts rt template m (field_params rt (mfields m)) (alerts m) of
        Inl p \<Rightarrow> Inl p
      | Inr (alerts', outputs) \<Rightarrow> Inr (resetFields (m\<lparr>alerts := alerts'\<rparr>), outputs))"

subsection \<open>Init and Write\<close>

definition defaultAlertThreshold :: uint where
  "defaultAlertThreshold = 2"

text \<open>
  The loop of \<open>Monitor.Init\<close> over the configured formulas: a formula that does not
  parse panics; a formula given twice keeps one entry, the later one.
\<close>

fun init_alerts ::
  "runtime \<Rightarrow> string list \<Rightarrow> (string \<times> Alert) list \<Rightarrow> panic + (string \<times> Alert) list" where
  "init_alerts rt [] acc = Inr acc"
| "init_alerts rt (formula # rest) acc =
     (case NewEvaluableExpression rt formula of
        None \<Rightarrow> Inl (CompilePanic formula)
      | Some expr \<Rightarrow>
          init_alerts rt rest
            (AList.update formula
               \<lparr>Formula = formula, Threshold = defaultAlertThreshold, IsAlerting = False,
                Count = 0, expression = expr\<rparr> acc))"

text \<open>\<open>Monitor.Init\<close>; \<open>regexp.MustCompile\<close> panics where \<open>Compile\<close> fails.\<close>

definition Init :: "runtime \<Rightarrow> Monitor \<Rightarrow> panic + Monitor" where
  "Init rt m =
     (case Compile rt (Host m) of
        None \<Rightarrow> Inl (CompilePanic (Host m))
      | Some rh \<Rightarrow>
     (case Compile rt (URI m) of
        None \<Rightarrow> Inl (CompilePanic (URI m))
      | Some ru \<Rightarrow>
     (case init_alerts rt (Alerts m) [] of
        Inl p \<Rightarrow> Inl p
      | Inr al \<Rightarrow> Inr ((resetFields (m\<lparr>regexpHost := rh, regexpURI := ru\<rparr>))\<lparr>alerts := al\<rparr>))))"

text \<open>
  The plugin, without its HTTP client: \<open>Write\<close> returns the bodies it hands to
  \<open>go s.write\<close>, in the order in which it starts the goroutines; their delivery is
  not modelled, and neither is \<open>Connect\<close> (the defaults and the parsing of the
  templates, \<open>Init\<close> for every monitor, the client).
\<close>

record Skyline =
  URL :: string
  Template :: TemplateConfig
  Monitors :: "Monitor list"

text \<open>The inner loop of \<open>Write\<close>: the error of \<open>ProcessMetric\<close> is dropped.\<close>

fun process_metrics :: "runtime \<Rightarrow> Monitor \<Rightarrow> Metric list \<Rightarrow> Monitor" where
  "process_metrics rt m [] = m"
| "process_metrics rt m (metric # rest) =
     process_metrics rt (fst (ProcessMetric rt m metric)) rest"

fun write_monitors ::
  "runtime \<Rightarrow> TemplateConfig \<Rightarrow> Monitor list \<Rightarrow> Metric list \<Rightarrow>
   panic + (Monitor list \<times> string list)" where
  "write_monitors rt template [] metrics = Inr ([], [])"
| "write_monitors rt template (monitor # rest) metrics =
     (case ShowAlerts rt template (process_metrics rt monitor metrics) of
        Inl p \<Rightarrow> Inl p
      | Inr (monitor', sent) \<Rightarrow>
          (case write_monitors rt template rest metrics of
             Inl p \<Rightarrow> Inl p
           | Inr (rest', sent') \<Rightarrow> Inr (monitor' # rest', sent @ sent')))"

definition Write :: "runtime \<Rightarrow> Skyline \<Rightarrow> Metric list \<Rightarrow> panic + (Skyline \<times> string list)" where
  "Write rt s metrics =
     (case write_monitors rt (Template s) (Monitors s) metrics of
        Inl p \<Rightarrow> Inl p
      | Inr (monitors', sent) \<Rightarrow> Inr (s\<lparr>Monitors := monitors'\<rparr>, sent))"

subsection \<open>Cycles of one rule\<close>

text \<open>
  The condition of a rule holds on a cycle when its expression evaluates to
  \<open>true\<close> on the parameters of the cycle.
\<close>

definition triggered :: "Alert \<Rightarrow> params \<Rightarrow> bool" where
  "triggered a ps = (EvaluateExpr (expression a) ps = Inr (VBool True))"

text \<open>
  The number of cycles at the end of a history on which the condition held without
  interruption: the cycles since the last one on which it did not hold, or since the
  start.
\<close>

definition streak :: "Alert \<Rightarrow> (Monitor \<times> params) list \<Rightarrow> nat" where
  "streak a history = length (takeWhile (\<lambda>(m, ps). triggered a ps) (rev history))"

text \<open>
  The rule after a history of cycles, each given by the monitor at the start of the
  cycle and the parameters built from its fields.
\<close>

fun run_cycles ::
  "runtime \<Rightarrow> TemplateConfig \<Rightarrow> Alert \<Rightarrow> (Monitor \<times> params) list \<Rightarrow> panic + Alert" where
  "run_cycles rt template a [] = Inr a"
| "run_cycles rt template a ((m, ps) # history) =
     (case alert_cycle rt template m ps a of
        Inl p \<Rightarrow> Inl p
      | Inr (a', out) \<Rightarrow> run_cycles rt template a' history)"

text \<open>
  A rule is silent without data when its expression, evaluated on no parameters at
  all, fails or is false (a formula that compares a variable does: the variable has
  no parameter).
\<close>

definition silent_without_data :: "Alert \<Rightarrow> bool" where
  "silent_without_data a =
     (case EvaluateExpr (expression a) Map.empty of
        Inl err \<Rightarrow> True
      | Inr (VBool result) \<Rightarrow> \<not> result
      | Inr _ \<Rightarrow> False)"

text \<open>The messages of successive calls of \<open>Write\<close>, one batch of metrics per call.\<close>

fun write_cycles ::
  "runtime \<Rightarrow> Skyline \<Rightarrow> Metric list list \<Rightarrow> panic + (Skyline \<times> string list list)" where
  "write_cycles rt s [] = Inr (s, [])"
| "write_cycles rt s (batch # batches) =
     (case Write rt s batch of
        Inl p \<Rightarrow> Inl p
      | Inr (s', sent) \<Rightarrow>
          (case write_cycles rt s' batches of
             Inl p \<Rightarrow> Inl p
           | Inr (s'', sents) \<Rightarrow> Inr (s'', sent # sents)))"

subsection \<open>The configuration and the metrics of skyline\_test.go\<close>

text \<open>
  A runtime for the examples: \<open>ParseInt\<close> on unsigned decimal numerals, the
  nearest-rank percentile, \<open>Compile\<close> on patterns of literal characters and dots, and
  the parser of the two formulas of the test configuration and of one formula over
  two status codes. \<open>FormatG\<close> renders the one value that is not an integer among
  those the examples format, \<open>0.9\<close>; \<open>ParseFloat\<close> is not reached: the examples have
  no string fields.
\<close>

definition digit_value :: "char \<Rightarrow> nat option" where
  "digit_value =
     map_of [(CHR ''0'', 0), (CHR ''1'', 1), (CHR ''2'', 2), (CHR ''3'', 3), (CHR ''4'', 4),
             (CHR ''5'', 5), (CHR ''6'', 6), (CHR ''7'', 7), (CHR ''8'', 8), (CHR ''9'', 9)]"

fun decimal_value :: "nat \<Rightarrow> string \<Rightarrow> nat option" where
  "decimal_value acc [] = Some acc"
| "decimal_value acc (c # cs) =
     (case digit_value c of None \<Rightarrow> None | Some d \<Rightarrow> decimal_value (10 * acc + d) cs)"

definition parse_decimal :: "string \<Rightarrow> int option" where
  "parse_decimal s = (if s = [] then None else map_option int (decimal_value 0 s))"

text \<open>
  The compiled form of the formula \<open>v > c\<close>: one variable token; the evaluation fails
  when the variable has no parameter or a parameter that is not a number.
\<close>

definition greater_than :: "string \<Rightarrow> real \<Rightarrow> EvaluableExpression" where
  "greater_than v c =
     \<lparr>Vars = [v],
      EvaluateExpr = (\<lambda>ps. case ps v of
         None \<Rightarrow> Inl (EvaluationError v)
       | Some (VFloat64 x) \<Rightarrow> Inr (VBool (c < x))
       | Some _ \<Rightarrow> Inl (EvaluationError v))\<rparr>"

text \<open>The compiled form of \<open>v > c && w > d\<close>: two variable tokens, in this order.\<close>

definition both_greater_than :: "string \<Rightarrow> real \<Rightarrow> string \<Rightarrow> real \<Rightarrow> EvaluableExpression" where
  "both_greater_than v c w d =
     \<lparr>Vars = [v, w],
      EvaluateExpr = (\<lambda>ps. case (ps v, ps w) of
         (Some (VFloat64 x), Some (VFloat64 y)) \<Rightarrow> Inr (VBool (c < x \<and> d < y))
       | _ \<Rightarrow> Inl (EvaluationError (v @ w)))\<rparr>"

definition example_runtime :: runtime where
  "example_runtime =
     \<lparr>ParseInt = parse_decimal,
      ParseFloat = (\<lambda>s. None),
      FormatG = (\<lambda>x. if x = 9 / 10 then ''0.9'' else []),
      TimeNow = ''2019-03-01T12:00:00Z'',
      PercentileOf = (\<lambda>vs p. sort vs ! min (length vs - 1) (length vs * p div 100)),
      Compile = (\<lambda>s. Some (literal_pattern s)),
      NewEvaluableExpression = (\<lambda>s.
         if s = ''status_504 > 5'' then Some (greater_than ''status_504'' 5)
         else if s = ''rt_p95 > 0.8'' then Some (greater_than ''rt_p95'' (8 / 10))
         else if s = ''status_500 > 1 && status_5000 > 2''
           then Some (both_greater_than ''status_500'' 1 ''status_5000'' 2)
         else None)\<rparr>"

text \<open>The default templates \<open>defaultTemplateOK\<close> and \<open>defaultTemplateALERT\<close>, compiled.\<close>

definition defaultTemplate :: TemplateConfig where
  "defaultTemplate =
     \<lparr>OK = ''[{{ .Now }}] OK: {{ .Monitor.Name }} [{{ .EvaluatedFormula }}]'',
      ALERT = ''[{{ .Now }}] WARN: {{ .Monitor.Name }} [{{ .EvaluatedFormula }}]'',
      tOK = (\<lambda>msg. ''['' @ Now msg @ ''] OK: '' @ Name (Monitor msg) @ '' [''
                    @ EvaluatedFormula msg @ '']''),
      tALERT = (\<lambda>msg. ''['' @ Now msg @ ''] WARN: '' @ Name (Monitor msg) @ '' [''
                    @ EvaluatedFormula msg @ '']'')\<rparr>"

text \<open>
  The monitor \<open>www\<close> of the test configuration (host \<open>www.xiachufang.com\<close>, no uri,
  the rules \<open>status_504 > 5\<close> and \<open>rt_p95 > 0.8\<close>), before \<open>Init\<close> and in a given state
  of its two rules and its fields after \<open>Init\<close>.
\<close>

definition www_config :: Monitor where
  "www_config =
     \<lparr>Name = ''www'', Host = ''www.xiachufang.com'', URI = [],
      Alerts = [''status_504 > 5'', ''rt_p95 > 0.8''],
      regexpHost = Never, regexpURI = Never, mfields = Map.empty, alerts = []\<rparr>"

definition rule_504 :: "uint \<Rightarrow> bool \<Rightarrow> Alert" where
  "rule_504 n alerting =
     \<lparr>Formula = ''status_504 > 5'', Threshold = 2, IsAlerting = alerting, Count = n,
      expression = greater_than ''status_504'' 5\<rparr>"

definition rule_p95 :: "uint \<Rightarrow> bool \<Rightarrow> Alert" where
  "rule_p95 n alerting =
     \<lparr>Formula = ''rt_p95 > 0.8'', Threshold = 2, IsAlerting = alerting, Count = n,
      expression = greater_than ''rt_p95'' (8 / 10)\<rparr>"

definition www :: "Alert \<Rightarrow> Alert \<Rightarrow> (string \<rightharpoonup> RunningStats) \<Rightarrow> Monitor" where
  "www a b fs =
     \<lparr>Name = ''www'', Host = ''www.xiachufang.com'', URI = [],
      Alerts = [''status_504 > 5'', ''rt_p95 > 0.8''],
      regexpHost = literal_pattern ''www.xiachufang.com'', regexpURI = Empty,
      mfields = fs,
      alerts = [(''status_504 > 5'', a), (''rt_p95 > 0.8'', b)]\<rparr>"

definition www_fresh :: Monitor where
  "www_fresh = www (rule_504 0 False) (rule_p95 0 False) Map.empty"

text \<open>\<open>getMetric1\<close>, \<open>getMetric2\<close>: a 504 of another host and a 504 of the host.\<close>

definition getMetric1 :: Metric where
  "getMetric1 =
     \<lparr>Tags = [''host'' \<mapsto> ''m.xiachufang.com'', ''uri'' \<mapsto> ''/'', ''status'' \<mapsto> ''504''],
      Fields = [''rt_count'' \<mapsto> VInt64 3, ''rt_p95'' \<mapsto> VFloat64 1]\<rparr>"

definition getMetric2 :: Metric where
  "getMetric2 =
     \<lparr>Tags = [''host'' \<mapsto> ''www.xiachufang.com'', ''uri'' \<mapsto> ''/'', ''status'' \<mapsto> ''504''],
      Fields = [''rt_count'' \<mapsto> VInt64 3, ''rt_p95'' \<mapsto> VFloat64 1]\<rparr>"

text \<open>\<open>getMetric3\<close>: a 204 of the host with a request time of 0.9.\<close>

definition getMetric3 :: Metric where
  "getMetric3 =
     \<lparr>Tags = [''host'' \<mapsto> ''www.xiachufang.com'', ''uri'' \<mapsto> ''/'', ''status'' \<mapsto> ''204''],
      Fields = [''rt_count'' \<mapsto> VInt64 10, ''rt_p95'' \<mapsto> VFloat64 (9 / 10)]\<rparr>"

text \<open>
  Three more metrics: a 302 of the host, a 504 of another host without its \<open>status\<close>
  tag, and a 204 of the host whose \<open>rt_p95\<close> field is a \<open>bool\<close>.
\<close>

definition metric_redirect :: Metric where
  "metric_redirect =
     \<lparr>Tags = [''host'' \<mapsto> ''www.xiachufang.com'', ''uri'' \<mapsto> ''/'', ''status'' \<mapsto> ''302''],
      Fields = [''rt_count'' \<mapsto> VInt64 1, ''rt_p95'' \<mapsto> VFloat64 1]\<rparr>"

definition metric_without_status :: Metric where
  "metric_without_status =
     \<lparr>Tags = [''host'' \<mapsto> ''m.xiachufang.com'', ''uri'' \<mapsto> ''/''],
      Fields = [''rt_count'' \<mapsto> VInt64 3, ''rt_p95'' \<mapsto> VFloat64 1]\<rparr>"

definition metric_not_numeric :: Metric where
  "metric_not_numeric =
     \<lparr>Tags = [''host'' \<mapsto> ''www.xiachufang.com'', ''uri'' \<mapsto> ''/'', ''status'' \<mapsto> ''204''],
      Fields = [''rt_count'' \<mapsto> VInt64 10, ''rt_p95'' \<mapsto> VBool True]\<rparr>"

text \<open>
  A 504 of a host whose name has the name of the monitor's host strictly inside,
  and the monitor \<open>www\<close> with the path pattern \<open>/\<close>.
\<close>

definition metric_longer_host :: Metric where
  "metric_longer_host =
     \<lparr>Tags = [''host'' \<mapsto> ''dev.www.xiachufang.com.cn'', ''uri'' \<mapsto> ''/'',
             ''status'' \<mapsto> ''504''],
      Fields = [''rt_count'' \<mapsto> VInt64 3, ''rt_p95'' \<mapsto> VFloat64 1]\<rparr>"

definition www_root :: Monitor where
  "www_root = www_fresh\<lparr>URI := ''/'', regexpURI := literal_pattern ''/''\<rparr>"

text \<open>
  A 504 of the host whose \<open>rt_count\<close> field is the \<open>float64\<close> \<open>1e22\<close>; a rule over the
  counts of two status codes, one a prefix of the other; and the plugin with one
  monitor and the default templates.
\<close>

definition metric_huge :: Metric where
  "metric_huge =
     \<lparr>Tags = [''host'' \<mapsto> ''www.xiachufang.com'', ''uri'' \<mapsto> ''/'', ''status'' \<mapsto> ''504''],
      Fields = [''rt_count'' \<mapsto> VFloat64 (10 ^ 22), ''rt_p95'' \<mapsto> VFloat64 1]\<rparr>"

definition rule_two_codes :: Alert where
  "rule_two_codes =
     \<lparr>Formula = ''status_500 > 1 && status_5000 > 2'', Threshold = 2, IsAlerting = False,
      Count = 0, expression = both_greater_than ''status_500'' 1 ''status_5000'' 2\<rparr>"

text \<open>The monitor \<open>www\<close> with the rule over the two status codes as its only rule.\<close>

definition www_two_codes :: "Alert \<Rightarrow> (string \<rightharpoonup> RunningStats) \<Rightarrow> Monitor" where
  "www_two_codes a fs =
     \<lparr>Name = ''www'', Host = ''www.xiachufang.com'', URI = [],
      Alerts = [''status_500 > 1 && status_5000 > 2''],
      regexpHost = literal_pattern ''www.xiachufang.com'', regexpURI = Empty,
      mfields = fs,
      alerts = [(''status_500 > 1 && status_5000 > 2'', a)]\<rparr>"

definition skyline :: "Monitor \<Rightarrow> Skyline" where
  "skyline m =
     \<lparr>URL = ''http://127.0.0.1:8080/alert'', Template = defaultTemplate, Monitors = [m]\<rparr>"

section \<open>Properties of the embedding\<close>

subsection \<open>One rule in one cycle\<close>

lemma not_2_le_1: "\<not> (2::uint) \<le> 1"
  by (simp add: word_le_nat_alt)

lemma Evaluate_Inr:
  assumes "Evaluate rt a ps = Inr (a1, ef)"
  shows "a1 = a\<lparr>Count := (if triggered a ps then Count a + 1 else 0)\<rparr>"
    and "annotate rt ps (Formula a) (Vars (expression a)) = Inr ef"
  using assms
  by (auto simp: Evaluate_def triggered_def split: sum.splits gvalue.splits if_splits)

lemma alert_cycle_Evaluate:
  assumes "Evaluate rt a ps = Inr (a1, ef)"
  shows "alert_cycle rt template m ps a =
           (if Threshold a1 \<le> Count a1
            then Inr (a1\<lparr>IsAlerting := True\<rparr>,
                      [RenderTemplate rt (tALERT template) m (a1\<lparr>IsAlerting := True\<rparr>) ef])
            else if IsAlerting a1
            then Inr (a1\<lparr>IsAlerting := False\<rparr>,
                      [RenderTemplate rt (tOK template) m (a1\<lparr>IsAlerting := False\<rparr>) ef])
            else Inr (a1, []))"
  using assms by (simp add: alert_cycle_def Let_def)

lemma alert_cycle_Inr:
  assumes "alert_cycle rt template m ps a = Inr (a', out)"
  shows "Formula a' = Formula a" and "Threshold a' = Threshold a"
    and "expression a' = expression a"
    and "Count a' = (if triggered a ps then Count a + 1 else 0)"
    and "IsAlerting a' = (Threshold a \<le> Count a')"
proof -
  from assms obtain a1 ef where e: "Evaluate rt a ps = Inr (a1, ef)"
    by (auto simp: alert_cycle_def split: sum.splits)
  note c = alert_cycle_Evaluate [OF e, of template m] and a1 = Evaluate_Inr(1) [OF e]
  from assms c a1 show "Formula a' = Formula a" by (auto split: if_splits)
  from assms c a1 show "Threshold a' = Threshold a" by (auto split: if_splits)
  from assms c a1 show "expression a' = expression a" by (auto split: if_splits)
  from assms c a1 show "Count a' = (if triggered a ps then Count a + 1 else 0)"
    by (auto split: if_splits)
  from assms c a1 show "IsAlerting a' = (Threshold a \<le> Count a')"
    by (auto split: if_splits)
qed

lemma alert_cycle_out:
  assumes "alert_cycle rt template m ps a = Inr (a', out)"
  shows "\<exists>ef. annotate rt ps (Formula a) (Vars (expression a)) = Inr ef \<and>
           out = (if Threshold a \<le> Count a' then [RenderTemplate rt (tALERT template) m a' ef]
                  else if IsAlerting a then [RenderTemplate rt (tOK template) m a' ef]
                  else [])"
proof -
  from assms obtain a1 ef where e: "Evaluate rt a ps = Inr (a1, ef)"
    by (auto simp: alert_cycle_def split: sum.splits)
  note c = alert_cycle_Evaluate [OF e, of template m] and a1 = Evaluate_Inr [OF e]
  from assms c a1 show ?thesis by (auto split: if_splits)
qed

subsection \<open>The rules of a monitor in one cycle\<close>

lemma range_alerts_append:
  assumes "range_alerts rt template m ps pre = Inr (pre', outs1)"
      and "range_alerts rt template m ps post = Inr (post', outs2)"
  shows "range_alerts rt template m ps (pre @ post) = Inr (pre' @ post', outs1 @ outs2)"
  using assms
proof (induction pre arbitrary: pre' outs1)
  case Nil
  then show ?case by simp
next
  case (Cons x pre)
  obtain k a where x: "x = (k, a)" by (cases x)
  from Cons.prems(1) x obtain a' out rest' outs where
    c: "alert_cycle rt template m ps a = Inr (a', out)"
    and r: "range_alerts rt template m ps pre = Inr (rest', outs)"
    and e: "pre' = (k, a') # rest'" "outs1 = out @ outs"
    by (auto split: sum.splits)
  from Cons.IH [OF r Cons.prems(2)] c e x show ?case by simp
qed

text \<open>
  The cycle of a monitor, seen from one of its rules: the rules before it and after
  it in the order of the visit contribute their own messages around those of the
  rule.
\<close>

lemma ShowAlerts_split:
  assumes "alerts m = pre @ (k, a) # post"
      and "range_alerts rt template m (field_params rt (mfields m)) pre = Inr (pre', outs1)"
      and "alert_cycle rt template m (field_params rt (mfields m)) a = Inr (a', out)"
      and "range_alerts rt template m (field_params rt (mfields m)) post = Inr (post', outs2)"
  shows "ShowAlerts rt template m =
           Inr (resetFields (m\<lparr>alerts := pre' @ (k, a') # post'\<rparr>), outs1 @ out @ outs2)"
proof -
  have "range_alerts rt template m (field_params rt (mfields m)) ((k, a) # post)
          = Inr ((k, a') # post', out @ outs2)"
    using assms(3,4) by simp
  from range_alerts_append [OF assms(2) this] assms(1) show ?thesis
    by (simp add: ShowAlerts_def)
qed

lemma field_params_empty: "field_params rt Map.empty = Map.empty"
  by (simp add: field_params_def)

lemma field_params_float64:
  "field_params rt fs field = Some v \<Longrightarrow> \<exists>fv. v = VFloat64 fv"
  by (auto simp: field_params_def split: option.splits if_splits)

subsection \<open>A rule over a history of cycles\<close>

lemma triggered_expression: "expression a' = expression a \<Longrightarrow> triggered a' ps = triggered a ps"
  by (simp add: triggered_def)

lemma streak_snoc:
  "streak a (history @ [(m, ps)]) = (if triggered a ps then Suc (streak a history) else 0)"
  by (simp add: streak_def)

lemma streak_le_length: "streak a history \<le> length history"
  by (simp add: streak_def) (metis length_rev length_takeWhile_le)

lemma streak_all_triggered:
  "list_all (\<lambda>(m, ps). triggered a ps) history \<Longrightarrow> streak a history = length history"
  by (simp add: streak_def list_all_iff)
     (metis (mono_tags, lifting) length_rev set_rev takeWhile_eq_all_conv)

lemma run_cycles_snoc:
  "run_cycles rt template a (history @ [(m, ps)]) =
     (case run_cycles rt template a history of
        Inl p \<Rightarrow> Inl p
      | Inr a' \<Rightarrow>
          (case alert_cycle rt template m ps a' of Inl p \<Rightarrow> Inl p | Inr (a'', out) \<Rightarrow> Inr a''))"
proof (induction history arbitrary: a)
  case Nil
  show ?case by (simp split: sum.splits)
next
  case (Cons x history)
  obtain m' ps' where x: "x = (m', ps')" by (cases x)
  show ?case using Cons.IH by (simp add: x split: sum.splits)
qed

text \<open>The counter does not wrap before the \<open>2^64\<close>-th cycle in a row.\<close>

lemma unat_count_step:
  fixes c :: uint
  assumes "unat c < 2 ^ 64 - 1"
  shows "unat (c + 1) = Suc (unat c)"
proof -
  have "unat c + unat (1::uint) < 2 ^ LENGTH(64)" using assms by simp
  then have "unat (c + 1) = unat c + unat (1::uint)" by (simp only: unat_add_lem)
  then show ?thesis by simp
qed

lemma run_cycles_invariant:
  assumes "run_cycles rt template a0 history = Inr a"
      and "Count a0 = 0" and "length history < 2 ^ 64"
  shows "Formula a = Formula a0 \<and> Threshold a = Threshold a0 \<and> expression a = expression a0 \<and>
         unat (Count a) = streak a0 history"
  using assms
proof (induction history arbitrary: a rule: rev_induct)
  case Nil
  then show ?case by (simp add: streak_def)
next
  case (snoc x history)
  obtain m ps where x: "x = (m, ps)" by (cases x)
  from snoc.prems(1) x obtain b out where
    b: "run_cycles rt template a0 history = Inr b" and
    c: "alert_cycle rt template m ps b = Inr (a, out)"
    by (auto simp: run_cycles_snoc split: sum.splits)
  from snoc.prems(3) have len: "length history < 2 ^ 64 - 1" by simp
  then have "length history < 2 ^ 64" by simp
  from snoc.IH [OF b snoc.prems(2) this]
  have ih: "Formula b = Formula a0" "Threshold b = Threshold a0" "expression b = expression a0"
    "unat (Count b) = streak a0 history" by simp_all
  have t: "triggered b ps = triggered a0 ps" using ih(3) by (rule triggered_expression)
  have "unat (Count b) < 2 ^ 64 - 1" using ih(4) streak_le_length [of a0 history] len by simp
  then have "unat (Count b + 1) = Suc (streak a0 history)"
    using ih(4) by (simp add: unat_count_step)
  then have "unat (Count a) = streak a0 (history @ [(m, ps)])"
    using alert_cycle_Inr(4) [OF c] t by (simp add: streak_snoc)
  then show ?case using alert_cycle_Inr(1,2,3) [OF c] ih x by simp
qed

subsection \<open>A cycle without data\<close>

lemma annotate_no_params: "annotate rt Map.empty s vs = Inr s"
  by (induction vs) simp_all

lemma Evaluate_no_params:
  assumes "silent_without_data a"
  shows "Evaluate rt a Map.empty = Inr (a\<lparr>Count := 0\<rparr>, Formula a)"
  using assms
  by (auto simp: Evaluate_def silent_without_data_def annotate_no_params
           split: sum.splits gvalue.splits)

lemma alert_cycle_no_params:
  assumes "silent_without_data a" and "0 < Threshold a"
  shows "alert_cycle rt template m Map.empty a =
           Inr (a\<lparr>Count := 0, IsAlerting := False\<rparr>,
                if IsAlerting a
                then [RenderTemplate rt (tOK template) m (a\<lparr>Count := 0, IsAlerting := False\<rparr>)
                        (Formula a)]
                else [])"
proof -
  have "\<not> Threshold a \<le> 0" using assms(2) by simp
  then show ?thesis
    using alert_cycle_Evaluate [OF Evaluate_no_params [OF assms(1)], of rt template m]
    by simp
qed

lemma range_alerts_no_params:
  assumes "list_all (\<lambda>(k, a). 0 < Threshold a \<and> silent_without_data a) al"
  shows "range_alerts rt template m Map.empty al =
           Inr (map (\<lambda>(k, a). (k, a\<lparr>Count := 0, IsAlerting := False\<rparr>)) al,
                concat (map (\<lambda>(k, a).
                  if IsAlerting a
                  then [RenderTemplate rt (tOK template) m (a\<lparr>Count := 0, IsAlerting := False\<rparr>)
                          (Formula a)]
                  else []) al))"
  using assms
proof (induction al)
  case Nil
  show ?case by simp
next
  case (Cons x al)
  obtain k a where x: "x = (k, a)" by (cases x)
  from Cons.prems x have a: "0 < Threshold a" "silent_without_data a"
    and al: "list_all (\<lambda>(k, a). 0 < Threshold a \<and> silent_without_data a) al"
    by simp_all
  show ?case
    unfolding x using Cons.IH [OF al] alert_cycle_no_params [OF a(2,1), of rt template m]
    by simp
qed

lemma range_alerts_keeps_rules:
  assumes "range_alerts rt template m ps al = Inr (al', outs)"
      and "list_all (\<lambda>(k, a). 0 < Threshold a \<and> silent_without_data a) al"
  shows "list_all (\<lambda>(k, a). 0 < Threshold a \<and> silent_without_data a) al'"
  using assms
proof (induction al arbitrary: al' outs)
  case Nil
  then show ?case by simp
next
  case (Cons x al)
  obtain k a where x: "x = (k, a)" by (cases x)
  from Cons.prems(1) x obtain a' out rest' outs' where
    c: "alert_cycle rt template m ps a = Inr (a', out)"
    and r: "range_alerts rt template m ps al = Inr (rest', outs')"
    and e: "al' = (k, a') # rest'"
    by (auto split: sum.splits)
  from Cons.prems(2) x have a: "0 < Threshold a" "silent_without_data a"
    and al: "list_all (\<lambda>(k, a). 0 < Threshold a \<and> silent_without_data a) al"
    by simp_all
  have "0 < Threshold a'" "silent_without_data a'"
    using alert_cycle_Inr(2,3) [OF c] a by (simp_all add: silent_without_data_def)
  with Cons.IH [OF r al] e show ?case by simp
qed

subsection \<open>The rules that Init makes\<close>

lemma list_all_update:
  "list_all P al \<Longrightarrow> P (k, v) \<Longrightarrow> list_all P (AList.update k v al)"
  by (induction al) auto

lemma init_alerts_fresh:
  assumes "init_alerts rt formulas acc = Inr al"
      and "list_all (\<lambda>(k, a). Formula a = k \<and> Threshold a = defaultAlertThreshold \<and>
                               Count a = 0 \<and> \<not> IsAlerting a) acc"
  shows "list_all (\<lambda>(k, a). Formula a = k \<and> Threshold a = defaultAlertThreshold \<and>
                            Count a = 0 \<and> \<not> IsAlerting a) al"
  using assms
proof (induction formulas arbitrary: acc)
  case Nil
  then show ?case by simp
next
  case (Cons formula formulas)
  from Cons.prems(1) obtain expr where
    e: "NewEvaluableExpression rt formula = Some expr"
    and r: "init_alerts rt formulas
              (AList.update formula
                 \<lparr>Formula = formula, Threshold = defaultAlertThreshold, IsAlerting = False,
                  Count = 0, expression = expr\<rparr> acc) = Inr al"
    by (auto split: option.splits)
  show ?case
    by (rule Cons.IH [OF r]) (rule list_all_update [OF Cons.prems(2)], simp)
qed

text \<open>
  Every rule of an initialised monitor is keyed by its formula, has the default
  threshold 2, a count of 0, and is not alerting.
\<close>

lemma Init_alerts_fresh:
  assumes "Init rt m = Inr m'"
  shows "list_all (\<lambda>(k, a). Formula a = k \<and> Threshold a = defaultAlertThreshold \<and>
                            Count a = 0 \<and> \<not> IsAlerting a) (alerts m')"
proof -
  from assms obtain al where "init_alerts rt (Alerts m) [] = Inr al" and "alerts m' = al"
    by (auto simp: Init_def resetFields_def split: option.splits sum.splits)
  then show ?thesis using init_alerts_fresh [of rt "Alerts m" "[]" al] by simp
qed

subsection \<open>The characters of a string\<close>

lemma DecodeRuneInString_ascii:
  "(of_char c :: nat) < 0x80 \<Longrightarrow> DecodeRuneInString (c # cs) = (of_char c, 1)"
  by (simp add: DecodeRuneInString_def)

text \<open>The characters of a string of ASCII bytes are its bytes.\<close>

lemma runes_ascii:
  "list_all (\<lambda>c. (of_char c :: nat) < 0x80) s \<Longrightarrow> runes s = map of_char s"
  unfolding runes_def by (induction s) (simp_all add: DecodeRuneInString_ascii)

text \<open>
  What evaluates \<open>MatchString\<close> and \<open>literal_pattern\<close> on strings of ASCII bytes.
\<close>

lemmas MatchString_ascii =
  MatchString_def literal_pattern_def runes_def DecodeRuneInString_ascii

text \<open>
  A character of several bytes is one character: the two bytes of \<open>U+00E9\<close> and the
  three bytes of \<open>U+4E2D\<close>; a byte that starts no encoding is \<open>RuneError\<close>.
\<close>

lemma runes_multibyte:
  "runes [CHR ''a'', CHR 0xC3, CHR 0xA9, CHR 0xE4, CHR 0xB8, CHR 0xAD, CHR 0xFF, CHR ''b''] =
     [0x61, 0xE9, 0x4E2D, 0xFFFD, 0x62]"
  by (simp add: runes_def DecodeRuneInString_def RuneError_def)

subsection \<open>MatchString searches for a match\<close>

lemma FullMatch_match_here: "FullMatch r t \<Longrightarrow> match_here r (t @ post)"
proof (induction t arbitrary: r)
  case Nil
  then show ?case by (cases post) simp_all
next
  case (Cons c t)
  then show ?case by simp
qed

lemma match_here_match_from: "match_here r s \<Longrightarrow> match_from r s"
  by (cases s) simp_all

lemma match_from_prepend: "match_from r s \<Longrightarrow> match_from r (pre @ s)"
  by (induction pre) simp_all

lemma match_here_FullMatch: "match_here r s \<Longrightarrow> \<exists>t post. s = t @ post \<and> FullMatch r t"
proof (induction s arbitrary: r)
  case Nil
  then have "[] = [] @ [] \<and> FullMatch r []" by simp
  then show ?case by (intro exI)
next
  case (Cons c s)
  show ?case
  proof (cases "nullable r")
    case True
    then have "c # s = [] @ (c # s) \<and> FullMatch r []" by simp
    then show ?thesis by (intro exI)
  next
    case False
    with Cons.prems have "match_here (deriv c r) s" by simp
    from Cons.IH [OF this] obtain t post where "s = t @ post" "FullMatch (deriv c r) t"
      by (elim exE conjE)
    then have "c # s = (c # t) @ post \<and> FullMatch r (c # t)" by simp
    then show ?thesis by (intro exI)
  qed
qed

lemma match_from_FullMatch:
  "match_from r s \<Longrightarrow> \<exists>pre t post. s = pre @ t @ post \<and> FullMatch r t"
proof (induction s)
  case Nil
  then have "[] = [] @ [] @ [] \<and> FullMatch r []" by simp
  then show ?case by (intro exI)
next
  case (Cons c s)
  show ?case
  proof (cases "match_here r (c # s)")
    case True
    from match_here_FullMatch [OF this] obtain t post where
      "c # s = t @ post" "FullMatch r t" by (elim exE conjE)
    then have "c # s = [] @ t @ post \<and> FullMatch r t" by simp
    then show ?thesis by (intro exI)
  next
    case False
    with Cons.prems have "match_from r s" by simp
    from Cons.IH [OF this] obtain pre t post where "s = pre @ t @ post" "FullMatch r t"
      by (elim exE conjE)
    then have "c # s = (c # pre) @ t @ post \<and> FullMatch r t" by simp
    then show ?thesis by (intro exI)
  qed
qed

text \<open>
  \<open>MatchString\<close> holds exactly when some run of consecutive characters of the
  string, the empty one included, is a match of the whole pattern.
\<close>

lemma MatchString_iff:
  "MatchString r s \<longleftrightarrow> (\<exists>pre t post. runes s = pre @ t @ post \<and> FullMatch r t)"
proof
  assume "MatchString r s"
  then have "match_from r (runes s)" by (simp only: MatchString_def)
  then show "\<exists>pre t post. runes s = pre @ t @ post \<and> FullMatch r t"
    by (rule match_from_FullMatch)
next
  assume "\<exists>pre t post. runes s = pre @ t @ post \<and> FullMatch r t"
  then obtain pre t post where s: "runes s = pre @ t @ post" and f: "FullMatch r t"
    by (elim exE conjE)
  from f have "match_here r (t @ post)" by (rule FullMatch_match_here)
  then have "match_from r (t @ post)" by (rule match_here_match_from)
  then have "match_from r (pre @ t @ post)" by (rule match_from_prepend)
  then show "MatchString r s" by (simp only: MatchString_def s)
qed

text \<open>The empty pattern is found in every string.\<close>

lemma MatchString_Empty [simp]: "MatchString Empty s"
  unfolding MatchString_def by (cases "runes s") simp_all

lemma literal_pattern_Nil [simp]: "literal_pattern [] = Empty"
  by (simp add: literal_pattern_def runes_def)

text \<open>
  The host pattern of the sample configuration is found in the host of \<open>getMetric2\<close>
  and not in the host of \<open>getMetric1\<close>.
\<close>

lemma MatchString_www [simp]:
  "MatchString (literal_pattern ''www.xiachufang.com'') ''www.xiachufang.com''"
  "\<not> MatchString (literal_pattern ''www.xiachufang.com'') ''m.xiachufang.com''"
  by (simp_all add: MatchString_ascii)

text \<open>
  The dot consumes one character, not one byte: in \<open>caf\<close>, \<open>U+00E9\<close>, \<open>.org\<close> the
  pattern \<open>caf..org\<close> is found (the second dot consumes the dot of the name) and the
  pattern \<open>caf...org\<close> is not.
\<close>

lemma MatchString_dot_consumes_a_character:
  "MatchString (literal_pattern ''caf..org'')
     [CHR ''c'', CHR ''a'', CHR ''f'', CHR 0xC3, CHR 0xA9, CHR ''.'', CHR ''o'', CHR ''r'', CHR ''g''] \<and>
   \<not> MatchString (literal_pattern ''caf...org'')
     [CHR ''c'', CHR ''a'', CHR ''f'', CHR 0xC3, CHR 0xA9, CHR ''.'', CHR ''o'', CHR ''r'', CHR ''g'']"
  by (simp add: MatchString_def literal_pattern_def runes_def DecodeRuneInString_def)

subsection \<open>ProcessMetric and the error of addField\<close>

text \<open>
  No call of \<open>ProcessMetric\<close> returns the error of the numeric coercion, whatever the
  record.
\<close>

lemma ProcessMetric_drops_coercion_errors:
  "snd (ProcessMetric rt m metric) \<noteq> Some NonNumericType \<and>
   snd (ProcessMetric rt m metric) \<noteq> Some (ParseFloatError s)"
  by (simp add: ProcessMetric_def split: option.splits)

subsection \<open>shortenNumber\<close>

lemma exponent_eq:
  fixes fv :: real
  assumes "1000 ^ k \<le> fv" and "fv < 1000 ^ Suc k"
  shows "nat \<lfloor>ln fv / ln 1000\<rfloor> = k"
proof -
  have pos: "0 < fv" using assms(1) by (rule less_le_trans [rotated]) simp
  have "\<lfloor>log 1000 fv\<rfloor> = int k"
    using assms pos by (subst floor_log_eq_powr_iff) (simp_all add: powr_realpow powr_add)
  then show ?thesis by (simp add: log_def)
qed

text \<open>A value below 1000 is rendered bare, by \<open>%v\<close> alone.\<close>

lemma shortenNumber_below_1000:
  "fv < 1000 \<Longrightarrow> shortenNumber rt (VFloat64 fv) = Inr (Sprintf_v rt fv)"
  by (simp add: shortenNumber_def)

text \<open>
  At \<open>10^22\<close> the exponent is 7 and the index into \<open>kmgtpe\<close> is out of range.
\<close>

lemma shortenNumber_1e22:
  "shortenNumber rt (VFloat64 (10 ^ 22)) = Inl IndexOutOfRangePanic"
proof -
  have "(1000::real) ^ 7 \<le> 10 ^ 22" "(10::real) ^ 22 < 1000 ^ Suc 7" by simp_all
  then have "nat \<lfloor>ln ((10::real) ^ 22) / ln 1000\<rfloor> = 7" by (rule exponent_eq)
  then show ?thesis by (simp add: shortenNumber_def Let_def)
qed

lemma shortenNumber_6: "shortenNumber rt (VFloat64 6) = Inr ''6''"
  by (simp add: shortenNumber_def Sprintf_v_def decimal.simps)

lemma shortenNumber_7: "shortenNumber rt (VFloat64 7) = Inr ''7''"
  by (simp add: shortenNumber_def Sprintf_v_def decimal.simps)

lemma shortenNumber_950: "shortenNumber rt (VFloat64 950) = Inr ''950''"
  by (simp add: shortenNumber_def Sprintf_v_def decimal.simps)

lemma shortenNumber_1500: "shortenNumber rt (VFloat64 1500) = Inr ''1.5k''"
proof -
  have "(1000::real) ^ 1 \<le> 1500" "(1500::real) < 1000 ^ Suc 1" by simp_all
  then have "nat \<lfloor>ln (1500::real) / ln 1000\<rfloor> = 1" by (rule exponent_eq)
  then show ?thesis
    by (simp add: shortenNumber_def Sprintf_1f_def round_half_even_def decimal.simps)
qed

subsection \<open>The annotated formula\<close>

text \<open>
  With parameters that are all \<open>float64\<close>, as those of \<open>ShowAlerts\<close> are
  (\<open>field_params_float64\<close>), the type assertion of \<open>shortenNumber\<close> does not panic.
\<close>

lemma annotate_float64_no_type_assertion:
  assumes "\<And>v val. ps v = Some val \<Longrightarrow> \<exists>fv. val = VFloat64 fv"
  shows "annotate rt ps s0 vs \<noteq> Inl TypeAssertionPanic"
proof (induction vs arbitrary: s0)
  case Nil
  show ?case by simp
next
  case (Cons v vs)
  show ?case
  proof (cases "ps v")
    case None
    then show ?thesis using Cons.IH by simp
  next
    case (Some val)
    from assms [OF this] obtain fv where v: "val = VFloat64 fv" by blast
    have "shortenNumber rt val \<noteq> Inl TypeAssertionPanic"
      unfolding v by (simp add: shortenNumber_def Let_def)
    with Some Cons.IH show ?thesis by (auto split: sum.splits)
  qed
qed

text \<open>
  A formula with one variable token: every occurrence of the name is followed by
  the shortened value in parentheses.
\<close>

lemma annotate_single_variable:
  assumes "ps v = Some val" and "shortenNumber rt val = Inr n"
  shows "annotate rt ps s0 [v] = Inr (ReplaceAll s0 v (v @ ''('' @ n @ '')''))"
  using assms by simp

subsection \<open>The scenario of TestSkyline\<close>

lemma Init_www: "Init example_runtime www_config = Inr www_fresh"
  by (simp add: Init_def www_config_def www_fresh_def www_def rule_504_def rule_p95_def
        example_runtime_def resetFields_def defaultAlertThreshold_def)

lemma ParseInt_example:
  "ParseInt example_runtime ''504'' = Some 504"
  "ParseInt example_runtime ''204'' = Some 204"
  "ParseInt example_runtime ''302'' = Some 302"
  by (simp_all add: example_runtime_def parse_decimal_def digit_value_def)

lemma ProcessMetric_getMetric1:
  "ProcessMetric example_runtime (www a b fs) getMetric1 = (www a b fs, None)"
  by (simp add: ProcessMetric_def GetTag_def getMetric1_def www_def)

lemma ProcessMetric_getMetric2:
  "ProcessMetric example_runtime (www a b fs) getMetric2 =
     (www a b (fs(''status_504'' \<mapsto>
        AddValue (case fs ''status_504'' of None \<Rightarrow> \<lparr>observed = []\<rparr> | Some rs \<Rightarrow> rs) 3)), None)"
  by (simp add: ProcessMetric_def GetTag_def GetField_def getMetric2_def www_def
        example_runtime_def parse_decimal_def digit_value_def addField_def)

lemma process_two_getMetric2:
  "process_metrics example_runtime (www a b Map.empty) [getMetric2, getMetric2] =
     www a b [''status_504'' \<mapsto> \<lparr>observed = [3, 3]\<rparr>]"
  by (simp add: ProcessMetric_getMetric2 AddValue_def)

lemma Evaluate_rule_504_six:
  "Evaluate example_runtime (rule_504 n al)
     (field_params example_runtime [''status_504'' \<mapsto> \<lparr>observed = [3, 3]\<rparr>]) =
   Inr (rule_504 (n + 1) al, ''status_504(6) > 5'')"
  by (simp add: Evaluate_def rule_504_def greater_than_def field_params_def Sum_def
        shortenNumber_6 ReplaceAll_def)

lemma range_alerts_rule_p95_no_data:
  "range_alerts example_runtime defaultTemplate m
     (field_params example_runtime [''status_504'' \<mapsto> rs]) [(''rt_p95 > 0.8'', rule_p95 0 False)] =
   Inr ([(''rt_p95 > 0.8'', rule_p95 0 False)], [])"
  by (simp add: alert_cycle_def Evaluate_def rule_p95_def greater_than_def field_params_def)

lemma alert_cycle_rule_504_six:
  "alert_cycle example_runtime defaultTemplate m [''status_504'' \<mapsto> VFloat64 6]
     (rule_504 0 False) = Inr (rule_504 1 False, [])"
  "alert_cycle example_runtime defaultTemplate (www a b fs) [''status_504'' \<mapsto> VFloat64 6]
     (rule_504 1 False) =
     Inr (rule_504 2 True, [''[2019-03-01T12:00:00Z] WARN: www [status_504(6) > 5]''])"
  by (simp_all add: alert_cycle_def Evaluate_def rule_504_def greater_than_def shortenNumber_6
        ReplaceAll_def not_2_le_1 RenderTemplate_def defaultTemplate_def example_runtime_def
        www_def)

lemma ShowAlerts_idle:
  "ShowAlerts example_runtime defaultTemplate www_fresh = Inr (www_fresh, [])"
  by (simp add: www_fresh_def ShowAlerts_def www_def rule_504_def rule_p95_def
        field_params_def alert_cycle_def Evaluate_def greater_than_def resetFields_def)

lemma ShowAlerts_first_six:
  "ShowAlerts example_runtime defaultTemplate
     (www (rule_504 0 False) (rule_p95 0 False) [''status_504'' \<mapsto> \<lparr>observed = [3, 3]\<rparr>]) =
   Inr (www (rule_504 1 False) (rule_p95 0 False) Map.empty, [])"
  by (simp add: ShowAlerts_def www_def rule_504_def rule_p95_def field_params_def
        alert_cycle_def Evaluate_def greater_than_def Sum_def shortenNumber_6 ReplaceAll_def
        resetFields_def RenderTemplate_def defaultTemplate_def example_runtime_def not_2_le_1)

lemma ShowAlerts_first_alert:
  "ShowAlerts example_runtime defaultTemplate
     (www (rule_504 1 False) (rule_p95 0 False) [''status_504'' \<mapsto> \<lparr>observed = [3, 3]\<rparr>]) =
   Inr (www (rule_504 2 True) (rule_p95 0 False) Map.empty,
        [''[2019-03-01T12:00:00Z] WARN: www [status_504(6) > 5]''])"
  by (simp add: ShowAlerts_def www_def rule_504_def rule_p95_def field_params_def
        alert_cycle_def Evaluate_def greater_than_def Sum_def shortenNumber_6 ReplaceAll_def
        resetFields_def RenderTemplate_def defaultTemplate_def example_runtime_def)

lemma ShowAlerts_steady:
  "ShowAlerts example_runtime defaultTemplate
     (www (rule_504 2 True) (rule_p95 0 False) [''status_504'' \<mapsto> \<lparr>observed = [3, 3]\<rparr>]) =
   Inr (www (rule_504 3 True) (rule_p95 0 False) Map.empty,
        [''[2019-03-01T12:00:00Z] WARN: www [status_504(6) > 5]''])"
  by (simp add: ShowAlerts_def www_def rule_504_def rule_p95_def field_params_def
        alert_cycle_def Evaluate_def greater_than_def Sum_def shortenNumber_6 ReplaceAll_def
        resetFields_def RenderTemplate_def defaultTemplate_def example_runtime_def)

lemma ShowAlerts_recovery:
  "ShowAlerts example_runtime defaultTemplate (www (rule_504 n True) (rule_p95 0 False) Map.empty) =
   Inr (www (rule_504 0 False) (rule_p95 0 False) Map.empty,
        [''[2019-03-01T12:00:00Z] OK: www [status_504 > 5]''])"
  by (simp add: ShowAlerts_def www_def rule_504_def rule_p95_def field_params_def
        alert_cycle_def Evaluate_def greater_than_def
        resetFields_def RenderTemplate_def defaultTemplate_def example_runtime_def)

lemma Write_skyline:
  "ShowAlerts example_runtime defaultTemplate (process_metrics example_runtime m metrics) =
     Inr (m', sent)
   \<Longrightarrow> Write example_runtime (skyline m) metrics = Inr (skyline m', sent)"
  by (simp add: Write_def skyline_def)

text \<open>
  The cycles of the test, with the default templates: a metric of another host, then
  three cycles of two 504s of weight 3, then a cycle without metrics. The first sum
  of 6 sends nothing, the second and the third each send the ALERT message, and the
  empty cycle sends the OK message.
\<close>

lemma TestSkyline_scenario:
  "write_cycles example_runtime (skyline www_fresh)
     [[getMetric1], [getMetric2, getMetric2], [getMetric2, getMetric2],
      [getMetric2, getMetric2], []] =
   Inr (skyline www_fresh,
        [[],
         [],
         [''[2019-03-01T12:00:00Z] WARN: www [status_504(6) > 5]''],
         [''[2019-03-01T12:00:00Z] WARN: www [status_504(6) > 5]''],
         [''[2019-03-01T12:00:00Z] OK: www [status_504 > 5]'']])"
proof -
  have "process_metrics example_runtime www_fresh [getMetric1] = www_fresh"
    by (simp add: www_fresh_def ProcessMetric_getMetric1)
  then have c0: "Write example_runtime (skyline www_fresh) [getMetric1] =
                   Inr (skyline www_fresh, [])"
    by (intro Write_skyline) (simp only: ShowAlerts_idle)
  have c1: "Write example_runtime (skyline www_fresh) [getMetric2, getMetric2] =
              Inr (skyline (www (rule_504 1 False) (rule_p95 0 False) Map.empty), [])"
    unfolding www_fresh_def
    by (rule Write_skyline) (simp only: process_two_getMetric2 ShowAlerts_first_six)
  have c2: "Write example_runtime (skyline (www (rule_504 1 False) (rule_p95 0 False) Map.empty))
              [getMetric2, getMetric2] =
              Inr (skyline (www (rule_504 2 True) (rule_p95 0 False) Map.empty),
                   [''[2019-03-01T12:00:00Z] WARN: www [status_504(6) > 5]''])"
    by (rule Write_skyline) (simp only: process_two_getMetric2 ShowAlerts_first_alert)
  have c3: "Write example_runtime (skyline (www (rule_504 2 True) (rule_p95 0 False) Map.empty))
              [getMetric2, getMetric2] =
              Inr (skyline (www (rule_504 3 True) (rule_p95 0 False) Map.empty),
                   [''[2019-03-01T12:00:00Z] WARN: www [status_504(6) > 5]''])"
    by (rule Write_skyline) (simp only: process_two_getMetric2 ShowAlerts_steady)
  have "process_metrics example_runtime (www (rule_504 3 True) (rule_p95 0 False) Map.empty) []
          = www (rule_504 3 True) (rule_p95 0 False) Map.empty"
    by simp
  then have c4: "Write example_runtime
                   (skyline (www (rule_504 3 True) (rule_p95 0 False) Map.empty)) [] =
              Inr (skyline www_fresh, [''[2019-03-01T12:00:00Z] OK: www [status_504 > 5]''])"
    unfolding www_fresh_def by (intro Write_skyline) (simp only: ShowAlerts_recovery)
  show ?thesis by (simp add: c0 c1 c2 c3 c4)
qed

lemma nine_tenths_not_int: "(9 / 10 :: real) \<notin> \<int>"
proof
  assume "(9 / 10 :: real) \<in> \<int>"
  then obtain k :: int where k: "(9 / 10 :: real) = of_int k" by (auto elim: Ints_cases)
  then have "(9::real) = of_int (10 * k)" by simp
  then have "(9::int) = 10 * k" by (metis of_int_eq_iff of_int_numeral)
  then show False by presburger
qed

lemma shortenNumber_0_9: "shortenNumber example_runtime (VFloat64 (9 / 10)) = Inr ''0.9''"
  by (simp add: shortenNumber_def Sprintf_v_def nine_tenths_not_int example_runtime_def)

lemma ProcessMetric_getMetric3:
  "ProcessMetric example_runtime (www a b fs) getMetric3 =
     (www a b (fs(''rt_p95'' \<mapsto>
        AddValue (case fs ''rt_p95'' of None \<Rightarrow> \<lparr>observed = []\<rparr> | Some rs \<Rightarrow> rs) (9 / 10))), None)"
  by (simp add: ProcessMetric_def GetTag_def GetField_def getMetric3_def www_def
        example_runtime_def parse_decimal_def digit_value_def addField_def)

lemma Percentile_single: "Percentile example_runtime \<lparr>observed = [x]\<rparr> 80 = x"
  by (simp add: Percentile_def example_runtime_def)

lemma ShowAlerts_p95:
  "ShowAlerts example_runtime defaultTemplate
     (www (rule_504 0 False) (rule_p95 0 False) [''rt_p95'' \<mapsto> \<lparr>observed = [9 / 10]\<rparr>]) =
   Inr (www (rule_504 0 False) (rule_p95 1 False) Map.empty, [])"
  "ShowAlerts example_runtime defaultTemplate
     (www (rule_504 0 False) (rule_p95 1 False) [''rt_p95'' \<mapsto> \<lparr>observed = [9 / 10]\<rparr>]) =
   Inr (www (rule_504 0 False) (rule_p95 2 True) Map.empty,
        [''[2019-03-01T12:00:00Z] WARN: www [rt_p95(0.9) > 0.8]''])"
  "ShowAlerts example_runtime defaultTemplate
     (www (rule_504 0 False) (rule_p95 2 True) [''rt_p95'' \<mapsto> \<lparr>observed = [9 / 10]\<rparr>]) =
   Inr (www (rule_504 0 False) (rule_p95 3 True) Map.empty,
        [''[2019-03-01T12:00:00Z] WARN: www [rt_p95(0.9) > 0.8]''])"
  by (simp_all add: ShowAlerts_def www_def rule_504_def rule_p95_def field_params_def
        alert_cycle_def Evaluate_def greater_than_def Percentile_single shortenNumber_0_9
        ReplaceAll_def resetFields_def RenderTemplate_def defaultTemplate_def not_2_le_1)
     (simp_all add: example_runtime_def)

lemma process_getMetric3:
  "process_metrics example_runtime (www a b Map.empty) [getMetric3] =
     www a b [''rt_p95'' \<mapsto> \<lparr>observed = [9 / 10]\<rparr>]"
  by (simp add: ProcessMetric_getMetric3 AddValue_def)

text \<open>
  Three cycles of one 204 with a request time of 0.9: the rule \<open>rt_p95 > 0.8\<close> sends
  nothing on the first cycle and its ALERT message on the second and on the third.
\<close>

lemma TestSkyline_rt_p95_scenario:
  "write_cycles example_runtime (skyline www_fresh) [[getMetric3], [getMetric3], [getMetric3]] =
   Inr (skyline (www (rule_504 0 False) (rule_p95 3 True) Map.empty),
        [[],
         [''[2019-03-01T12:00:00Z] WARN: www [rt_p95(0.9) > 0.8]''],
         [''[2019-03-01T12:00:00Z] WARN: www [rt_p95(0.9) > 0.8]'']])"
proof -
  have c1: "Write example_runtime (skyline www_fresh) [getMetric3] =
              Inr (skyline (www (rule_504 0 False) (rule_p95 1 False) Map.empty), [])"
    unfolding www_fresh_def
    by (rule Write_skyline) (simp only: process_getMetric3 ShowAlerts_p95)
  have c2: "Write example_runtime (skyline (www (rule_504 0 False) (rule_p95 1 False) Map.empty))
              [getMetric3] =
              Inr (skyline (www (rule_504 0 False) (rule_p95 2 True) Map.empty),
                   [''[2019-03-01T12:00:00Z] WARN: www [rt_p95(0.9) > 0.8]''])"
    by (rule Write_skyline) (simp only: process_getMetric3 ShowAlerts_p95)
  have c3: "Write example_runtime (skyline (www (rule_504 0 False) (rule_p95 2 True) Map.empty))
              [getMetric3] =
              Inr (skyline (www (rule_504 0 False) (rule_p95 3 True) Map.empty),
                   [''[2019-03-01T12:00:00Z] WARN: www [rt_p95(0.9) > 0.8]''])"
    by (rule Write_skyline) (simp only: process_getMetric3 ShowAlerts_p95)
  show ?thesis by (simp add: c1 c2 c3)
qed

section \<open>The claims\<close>

subsection \<open>C1: a rule that stays ALERTING\<close>

text \<open>
  C1, as stated, fails. The monitor \<open>www\<close> of the test, its rule \<open>status_504 > 5\<close>
  already ALERTING with a count of 2, has received two metrics of weight 3 in the
  cycle: the count rises to 3, the rule stays ALERTING, and the cycle emits the ALERT
  message again rather than nothing (the case "3rd 6 > 5: ALERT -> ALERT" of
  skyline\_test.go, which waits for this message).
\<close>

theorem C1_steady_alert_counterexample:
  "IsAlerting (rule_504 2 True) \<and>
   Threshold (rule_504 2 True) \<le> Count (rule_504 2 True) + 1 \<and>
   ShowAlerts example_runtime defaultTemplate
     (www (rule_504 2 True) (rule_p95 0 False) [''status_504'' \<mapsto> \<lparr>observed = [3, 3]\<rparr>]) =
   Inr (www (rule_504 3 True) (rule_p95 0 False) Map.empty,
        [''[2019-03-01T12:00:00Z] WARN: www [status_504(6) > 5]''])"
  using ShowAlerts_steady by (simp add: rule_504_def)

text \<open>
  C1, amended: a rule that is already ALERTING and whose count, after the evaluation
  of the cycle, is at or above its threshold stays ALERTING and contributes exactly
  one ALERT message to the messages of the cycle, between the messages of the rules
  visited before it and after it. So every cycle of an alerting episode emits an
  ALERT message for the rule, not only the first.
\<close>

theorem C1_steady_alert_repeats:
  assumes "alerts m = pre @ (k, a) # post"
      and "range_alerts rt template m (field_params rt (mfields m)) pre = Inr (pre', outs1)"
      and "range_alerts rt template m (field_params rt (mfields m)) post = Inr (post', outs2)"
      and "Evaluate rt a (field_params rt (mfields m)) = Inr (a1, ef)"
      and "IsAlerting a"
      and "Threshold a1 \<le> Count a1"
  shows "ShowAlerts rt template m =
           Inr (resetFields (m\<lparr>alerts := pre' @ (k, a1\<lparr>IsAlerting := True\<rparr>) # post'\<rparr>),
                outs1 @ [RenderTemplate rt (tALERT template) m (a1\<lparr>IsAlerting := True\<rparr>) ef]
                  @ outs2)"
  using ShowAlerts_split [OF assms(1,2) _ assms(3)] alert_cycle_Evaluate [OF assms(4)] assms(6)
  by simp

text \<open>
  The amended C1 at the monitor \<open>www\<close>: the rule \<open>status_504 > 5\<close>, ALERTING with a
  count of 2, is the first rule; the rule \<open>rt_p95 > 0.8\<close> after it has no data.
\<close>

theorem C1_steady_alert_repeats_witness:
  "IsAlerting (rule_504 2 True) \<and>
   Threshold (rule_504 3 True) \<le> Count (rule_504 3 True) \<and>
   ShowAlerts example_runtime defaultTemplate
     (www (rule_504 2 True) (rule_p95 0 False) [''status_504'' \<mapsto> \<lparr>observed = [3, 3]\<rparr>]) =
   Inr (www (rule_504 3 True) (rule_p95 0 False) Map.empty,
        [''[2019-03-01T12:00:00Z] WARN: www [status_504(6) > 5]''])"
proof -
  let ?fs = "[''status_504'' \<mapsto> \<lparr>observed = [3, 3]\<rparr>]"
  let ?m = "www (rule_504 2 True) (rule_p95 0 False) ?fs"
  have h1: "alerts ?m =
              [] @ (''status_504 > 5'', rule_504 2 True) # [(''rt_p95 > 0.8'', rule_p95 0 False)]"
    by (simp add: www_def)
  have h2: "range_alerts example_runtime defaultTemplate ?m
              (field_params example_runtime (mfields ?m)) [] = Inr ([], [])"
    by simp
  have h3: "range_alerts example_runtime defaultTemplate ?m
              (field_params example_runtime (mfields ?m))
              [(''rt_p95 > 0.8'', rule_p95 0 False)] =
              Inr ([(''rt_p95 > 0.8'', rule_p95 0 False)], [])"
    using range_alerts_rule_p95_no_data by (simp add: www_def)
  have h4: "Evaluate example_runtime (rule_504 2 True)
              (field_params example_runtime (mfields ?m)) =
              Inr (rule_504 3 True, ''status_504(6) > 5'')"
    using Evaluate_rule_504_six [of 2 True] by (simp add: www_def)
  have h5: "IsAlerting (rule_504 2 True)"
    by (simp add: rule_504_def)
  have h6: "Threshold (rule_504 3 True) \<le> Count (rule_504 3 True)"
    by (simp add: rule_504_def)
  from C1_steady_alert_repeats [OF h1 h2 h3 h4 h5 h6] h5 h6 show ?thesis
    by (simp add: www_def rule_504_def resetFields_def RenderTemplate_def defaultTemplate_def
          example_runtime_def)
qed

subsection \<open>C2: from OK to ALERTING\<close>

text \<open>
  C2: a rule starts with a count of 0 and runs through a history of cycles; it is OK
  before the next cycle. Then it is ALERTING after that cycle if and only if its
  condition held on at least \<open>Threshold\<close> cycles in a row up to and including that
  cycle (since the last cycle on which it did not hold, or since the start), and the
  cycle emits one ALERT message for it if it is, and nothing if it is not. With the
  default threshold 2 and a condition that holds on every cycle, the rule does not
  turn ALERTING on the first cycle and does on the second. The counter is a \<open>uint\<close>:
  the history is shorter than \<open>2^64\<close> cycles.
\<close>

theorem C2_alert_after_threshold_cycles:
  assumes "run_cycles rt template a0 history = Inr a"
      and "Count a0 = 0"
      and "length (history @ [(m, ps)]) < 2 ^ 64"
      and "\<not> IsAlerting a"
      and "alert_cycle rt template m ps a = Inr (a', out)"
  shows "(IsAlerting a' \<longleftrightarrow> unat (Threshold a0) \<le> streak a0 (history @ [(m, ps)])) \<and>
         (\<exists>ef. annotate rt ps (Formula a0) (Vars (expression a0)) = Inr ef \<and>
            out = (if IsAlerting a' then [RenderTemplate rt (tALERT template) m a' ef] else [])) \<and>
         (Threshold a0 = defaultAlertThreshold \<and>
            list_all (\<lambda>(m, ps). triggered a0 ps) (history @ [(m, ps)]) \<longrightarrow>
            (IsAlerting a' \<longleftrightarrow> history \<noteq> []))"
proof -
  have r: "run_cycles rt template a0 (history @ [(m, ps)]) = Inr a'"
    using assms(1,5) by (simp add: run_cycles_snoc)
  from assms(3) have "length history < 2 ^ 64" by simp
  from run_cycles_invariant [OF assms(1,2) this]
  have inv: "Formula a = Formula a0" "Threshold a = Threshold a0" "expression a = expression a0"
    by simp_all
  from run_cycles_invariant [OF r assms(2,3)]
  have inv': "Threshold a' = Threshold a0" "unat (Count a') = streak a0 (history @ [(m, ps)])"
    by simp_all
  have al: "IsAlerting a' \<longleftrightarrow> Threshold a0 \<le> Count a'"
    using alert_cycle_Inr(5) [OF assms(5)] inv(2) by simp
  then have 1: "IsAlerting a' \<longleftrightarrow> unat (Threshold a0) \<le> streak a0 (history @ [(m, ps)])"
    using inv'(2) by (simp add: word_le_nat_alt)
  have 2: "\<exists>ef. annotate rt ps (Formula a0) (Vars (expression a0)) = Inr ef \<and>
            out = (if IsAlerting a' then [RenderTemplate rt (tALERT template) m a' ef] else [])"
    using alert_cycle_out [OF assms(5)] assms(4) al inv by auto
  have 3: "IsAlerting a' \<longleftrightarrow> history \<noteq> []"
    if "Threshold a0 = defaultAlertThreshold"
      and "list_all (\<lambda>(m, ps). triggered a0 ps) (history @ [(m, ps)])"
  proof -
    have "streak a0 (history @ [(m, ps)]) = Suc (length history)"
      using streak_all_triggered [OF that(2)] by simp
    then show ?thesis
      using 1 that(1) by (cases history) (simp_all add: defaultAlertThreshold_def)
  qed
  from 1 2 3 show ?thesis by blast
qed

text \<open>
  C2 at the rule \<open>status_504 > 5\<close>, which has the default threshold, with the sum 6
  on two cycles: after the first cycle the rule is OK with a count of 1; the second
  cycle turns it ALERTING and emits the ALERT message; the streak of 2 reaches the
  threshold.
\<close>

theorem C2_alert_after_threshold_cycles_witness:
  "run_cycles example_runtime defaultTemplate (rule_504 0 False)
     [(www_fresh, [''status_504'' \<mapsto> VFloat64 6])] = Inr (rule_504 1 False) \<and>
   \<not> IsAlerting (rule_504 1 False) \<and>
   alert_cycle example_runtime defaultTemplate www_fresh [''status_504'' \<mapsto> VFloat64 6]
     (rule_504 1 False) =
     Inr (rule_504 2 True, [''[2019-03-01T12:00:00Z] WARN: www [status_504(6) > 5]'']) \<and>
   Threshold (rule_504 0 False) = defaultAlertThreshold \<and>
   list_all (\<lambda>(m, ps). triggered (rule_504 0 False) ps)
     [(www_fresh, [''status_504'' \<mapsto> VFloat64 6]),
      (www_fresh, [''status_504'' \<mapsto> VFloat64 6])] \<and>
   IsAlerting (rule_504 2 True) \<and>
   unat (Threshold (rule_504 0 False)) \<le>
     streak (rule_504 0 False)
       [(www_fresh, [''status_504'' \<mapsto> VFloat64 6]),
        (www_fresh, [''status_504'' \<mapsto> VFloat64 6])]"
proof -
  let ?six = "[''status_504'' \<mapsto> VFloat64 6]"
  have h1: "run_cycles example_runtime defaultTemplate (rule_504 0 False) [(www_fresh, ?six)]
              = Inr (rule_504 1 False)"
    by (simp add: alert_cycle_rule_504_six)
  have h2: "Count (rule_504 0 False) = 0"
    by (simp add: rule_504_def)
  have h3: "length ([(www_fresh, ?six)] @ [(www_fresh, ?six)]) < 2 ^ 64"
    by simp
  have h4: "\<not> IsAlerting (rule_504 1 False)"
    by (simp add: rule_504_def)
  have h5: "alert_cycle example_runtime defaultTemplate www_fresh ?six (rule_504 1 False) =
              Inr (rule_504 2 True, [''[2019-03-01T12:00:00Z] WARN: www [status_504(6) > 5]''])"
    by (simp add: alert_cycle_rule_504_six www_fresh_def)
  have d: "Threshold (rule_504 0 False) = defaultAlertThreshold"
    by (simp add: rule_504_def defaultAlertThreshold_def)
  have t: "list_all (\<lambda>(m, ps). triggered (rule_504 0 False) ps)
             ([(www_fresh, ?six)] @ [(www_fresh, ?six)])"
    by (simp add: triggered_def rule_504_def greater_than_def)
  note c = C2_alert_after_threshold_cycles [OF h1 h2 h3 h4 h5]
  from c d t have a: "IsAlerting (rule_504 2 True)"
    by blast
  with c have "unat (Threshold (rule_504 0 False)) \<le>
          streak (rule_504 0 False) ([(www_fresh, ?six)] @ [(www_fresh, ?six)])"
    by blast
  with h1 h4 h5 d t a show ?thesis by simp
qed

subsection \<open>C3: recovery\<close>

text \<open>
  C3: a rule whose count, after the evaluation of the cycle, is below its threshold
  is OK after the cycle. If it was ALERTING it contributes exactly one OK message to
  the messages of the cycle, whatever its count was and is; if it was OK already
  it contributes nothing.
\<close>

theorem C3_recovery_reported_once:
  assumes "alerts m = pre @ (k, a) # post"
      and "range_alerts rt template m (field_params rt (mfields m)) pre = Inr (pre', outs1)"
      and "range_alerts rt template m (field_params rt (mfields m)) post = Inr (post', outs2)"
      and "Evaluate rt a (field_params rt (mfields m)) = Inr (a1, ef)"
      and "Count a1 < Threshold a1"
  shows "ShowAlerts rt template m =
           Inr (resetFields (m\<lparr>alerts := pre' @ (k, a1\<lparr>IsAlerting := False\<rparr>) # post'\<rparr>),
                outs1 @ (if IsAlerting a
                         then [RenderTemplate rt (tOK template) m (a1\<lparr>IsAlerting := False\<rparr>) ef]
                         else []) @ outs2)"
proof -
  have n: "\<not> Threshold a1 \<le> Count a1" using assms(5) by simp
  have i: "IsAlerting a1 = IsAlerting a" using Evaluate_Inr(1) [OF assms(4)] by simp
  have "alert_cycle rt template m (field_params rt (mfields m)) a =
          Inr (a1\<lparr>IsAlerting := False\<rparr>,
               if IsAlerting a
               then [RenderTemplate rt (tOK template) m (a1\<lparr>IsAlerting := False\<rparr>) ef] else [])"
    using alert_cycle_Evaluate [OF assms(4), of template m] n i by simp
  from ShowAlerts_split [OF assms(1,2) this assms(3)] show ?thesis .
qed

text \<open>
  C3 at the monitor \<open>www\<close>: the rule \<open>status_504 > 5\<close> is ALERTING with a count of 3
  and the cycle has no data (the case "ALERT -> OK" of the test).
\<close>

theorem C3_recovery_reported_once_witness:
  "Count (rule_504 0 True) < Threshold (rule_504 0 True) \<and>
   ShowAlerts example_runtime defaultTemplate (www (rule_504 3 True) (rule_p95 0 False) Map.empty) =
     Inr (www (rule_504 0 False) (rule_p95 0 False) Map.empty,
          [''[2019-03-01T12:00:00Z] OK: www [status_504 > 5]''])"
proof -
  let ?m = "www (rule_504 3 True) (rule_p95 0 False) Map.empty"
  let ?ps = "field_params example_runtime (mfields ?m)"
  have ps: "?ps = Map.empty" by (simp add: field_params_def www_def)
  have h1: "alerts ?m =
              [] @ (''status_504 > 5'', rule_504 3 True) # [(''rt_p95 > 0.8'', rule_p95 0 False)]"
    by (simp add: www_def)
  have h2: "range_alerts example_runtime defaultTemplate ?m ?ps [] = Inr ([], [])"
    by simp
  have h3: "range_alerts example_runtime defaultTemplate ?m ?ps
              [(''rt_p95 > 0.8'', rule_p95 0 False)] =
              Inr ([(''rt_p95 > 0.8'', rule_p95 0 False)], [])"
    unfolding ps by (simp add: alert_cycle_def Evaluate_def rule_p95_def greater_than_def)
  have h4: "Evaluate example_runtime (rule_504 3 True) ?ps =
              Inr (rule_504 0 True, ''status_504 > 5'')"
    unfolding ps by (simp add: Evaluate_def rule_504_def greater_than_def)
  have h5: "Count (rule_504 0 True) < Threshold (rule_504 0 True)"
    by (simp add: rule_504_def)
  from C3_recovery_reported_once [OF h1 h2 h3 h4 h5] h5 show ?thesis
    by (simp add: www_def rule_504_def resetFields_def RenderTemplate_def defaultTemplate_def
          example_runtime_def)
qed

subsection \<open>C4: the filter on host and uri\<close>




subsection \<open>C5: the classes of status\<close>

text \<open>
  C5: for a record whose host and uri match and whose status parses to an integer,
  a status from 200 up to 300 folds the numeric value of the field \<open>rt_p95\<close> into the
  accumulator \<open>rt_p95\<close>; a status of 400 or more folds the numeric value of the field
  \<open>rt_count\<close> into the accumulator \<open>status_\<close> followed by the text of the status; a
  status from 300 up to 400 leaves the monitor as it is. Folding adds the value
  itself to the sum of the accumulator.
\<close>

theorem C5_status_classes:
  assumes "GetTag metric ''host'' = Some host"
      and "GetTag metric ''uri'' = Some uri"
      and "MatchString (regexpHost m) host"
      and "MatchString (regexpURI m) uri"
      and "GetTag metric ''status'' = Some status"
      and "ParseInt rt status = Some statusInt"
  shows "(200 \<le> statusInt \<and> statusInt < 300 \<and>
            GetField metric ''rt_p95'' = Some v \<and> getFloat rt v = Inr x \<longrightarrow>
          ProcessMetric rt m metric =
            (m\<lparr>mfields := (mfields m)(''rt_p95'' \<mapsto>
                 AddValue (case mfields m ''rt_p95'' of
                             None \<Rightarrow> \<lparr>observed = []\<rparr> | Some rs \<Rightarrow> rs) x)\<rparr>,
             None)) \<and>
         (400 \<le> statusInt \<and>
            GetField metric ''rt_count'' = Some v \<and> getFloat rt v = Inr x \<longrightarrow>
          ProcessMetric rt m metric =
            (m\<lparr>mfields := (mfields m)(''status_'' @ status \<mapsto>
                 AddValue (case mfields m (''status_'' @ status) of
                             None \<Rightarrow> \<lparr>observed = []\<rparr> | Some rs \<Rightarrow> rs) x)\<rparr>,
             None)) \<and>
         (300 \<le> statusInt \<and> statusInt < 400 \<longrightarrow> ProcessMetric rt m metric = (m, None)) \<and>
         Sum (AddValue rs x) = Sum rs + x"
  using assms by (simp add: ProcessMetric_def addField_def Sum_def AddValue_def Let_def)

text \<open>
  C5 at three records of the host: the 504 (\<open>getMetric2\<close>) folds the value 3 of
  \<open>rt_count\<close> into the accumulator \<open>status_504\<close>, the 204 (\<open>getMetric3\<close>) folds its
  \<open>rt_p95\<close> of 0.9 into the accumulator \<open>rt_p95\<close>, and the 302 folds nothing.
\<close>

theorem C5_status_classes_witness:
  "MatchString (regexpHost www_fresh) ''www.xiachufang.com'' \<and>
   MatchString (regexpURI www_fresh) ''/'' \<and>
   ParseInt example_runtime ''504'' = Some 504 \<and>
   getFloat example_runtime (VInt64 3) = Inr 3 \<and>
   ProcessMetric example_runtime www_fresh getMetric2 =
     (www_fresh\<lparr>mfields := [''status_504'' \<mapsto> \<lparr>observed = [3]\<rparr>]\<rparr>, None) \<and>
   ParseInt example_runtime ''204'' = Some 204 \<and>
   getFloat example_runtime (VFloat64 (9 / 10)) = Inr (9 / 10) \<and>
   ProcessMetric example_runtime www_fresh getMetric3 =
     (www_fresh\<lparr>mfields := [''rt_p95'' \<mapsto> \<lparr>observed = [9 / 10]\<rparr>]\<rparr>, None) \<and>
   ParseInt example_runtime ''302'' = Some 302 \<and>
   ProcessMetric example_runtime www_fresh metric_redirect = (www_fresh, None)"
proof -
  have h3: "MatchString (regexpHost www_fresh) ''www.xiachufang.com''"
    by (simp add: www_fresh_def www_def)
  have h4: "MatchString (regexpURI www_fresh) ''/''"
    by (simp add: www_fresh_def www_def)
  have t2: "GetTag getMetric2 ''host'' = Some ''www.xiachufang.com''"
    "GetTag getMetric2 ''uri'' = Some ''/''" "GetTag getMetric2 ''status'' = Some ''504''"
    "GetField getMetric2 ''rt_count'' = Some (VInt64 3)"
    by (simp_all add: GetTag_def GetField_def getMetric2_def)
  have t3: "GetTag getMetric3 ''host'' = Some ''www.xiachufang.com''"
    "GetTag getMetric3 ''uri'' = Some ''/''" "GetTag getMetric3 ''status'' = Some ''204''"
    "GetField getMetric3 ''rt_p95'' = Some (VFloat64 (9 / 10))"
    by (simp_all add: GetTag_def GetField_def getMetric3_def)
  have t4: "GetTag metric_redirect ''host'' = Some ''www.xiachufang.com''"
    "GetTag metric_redirect ''uri'' = Some ''/''" "GetTag metric_redirect ''status'' = Some ''302''"
    by (simp_all add: GetTag_def metric_redirect_def)
  have g: "getFloat example_runtime (VInt64 3) = Inr 3"
    "getFloat example_runtime (VFloat64 (9 / 10)) = Inr (9 / 10)"
    by simp_all
  from C5_status_classes [OF t2(1,2) h3 h4 t2(3) ParseInt_example(1), of "VInt64 3" 3] t2(4) g(1)
  have 1: "ProcessMetric example_runtime www_fresh getMetric2 =
          (www_fresh\<lparr>mfields := [''status_504'' \<mapsto> \<lparr>observed = [3]\<rparr>]\<rparr>, None)"
    by (simp add: www_fresh_def www_def AddValue_def)
  from C5_status_classes [OF t3(1,2) h3 h4 t3(3) ParseInt_example(2), of "VFloat64 (9 / 10)" "9 / 10"]
    t3(4) g(2)
  have 2: "ProcessMetric example_runtime www_fresh getMetric3 =
          (www_fresh\<lparr>mfields := [''rt_p95'' \<mapsto> \<lparr>observed = [9 / 10]\<rparr>]\<rparr>, None)"
    by (simp add: www_fresh_def www_def AddValue_def)
  from C5_status_classes [OF t4(1,2) h3 h4 t4(3) ParseInt_example(3)]
  have 3: "ProcessMetric example_runtime www_fresh metric_redirect = (www_fresh, None)"
    by simp
  from h3 h4 g 1 2 3 ParseInt_example show ?thesis by simp
qed

subsection \<open>C6: a value that is not numeric\<close>

text \<open>
  C6 is not what the code does: \<open>addField\<close> returns the error of the coercion and
  \<open>ProcessMetric\<close> does not look at it. A 204 of the host whose \<open>rt_p95\<close> is a \<open>bool\<close>
  is coerced with an error, nothing is folded, and \<open>ProcessMetric\<close> returns no error.
\<close>

theorem C6_error_of_addField_dropped:
  "GetField metric_not_numeric ''rt_p95'' = Some (VBool True) \<and>
   getFloat example_runtime (VBool True) = Inl NonNumericType \<and>
   addField example_runtime www_fresh ''rt_p95'' (VBool True) = (www_fresh, Some NonNumericType) \<and>
   ProcessMetric example_runtime www_fresh metric_not_numeric = (www_fresh, None)"
  by (simp add: ProcessMetric_def GetTag_def GetField_def metric_not_numeric_def www_fresh_def
        www_def example_runtime_def parse_decimal_def digit_value_def addField_def)

text \<open>The error that \<open>addField\<close> returns for the record and the one \<open>ProcessMetric\<close> returns.\<close>

theorem C6_error_of_addField_dropped_witness:
  "snd (ProcessMetric example_runtime www_fresh metric_not_numeric) = None \<and>
   snd (addField example_runtime www_fresh ''rt_p95'' (VBool True)) = Some NonNumericType"
  using C6_error_of_addField_dropped by simp

subsection \<open>C7: a missing tag\<close>

text \<open>
  C7, as stated, fails. A record of another host without its \<open>status\<close> tag is skipped
  by the filter before the tag is looked for: no error is returned.
\<close>

theorem C7_missing_status_counterexample:
  "GetTag metric_without_status ''status'' = None \<and>
   ProcessMetric example_runtime www_fresh metric_without_status = (www_fresh, None)"
  by (simp add: ProcessMetric_def GetTag_def metric_without_status_def www_fresh_def www_def)

text \<open>
  C7, amended: a record without its host tag, or with it and without its uri tag,
  returns the missing-tag error, whatever the patterns. A record with both and
  without its status tag returns the missing-tag error if host and uri match the
  patterns of the monitor, and is skipped without an error if they do not.
\<close>

theorem C7_missing_tag_errors:
  "(GetTag metric ''host'' = None \<longrightarrow>
      ProcessMetric rt m metric = (m, Some (MissingTag ''host''))) \<and>
   (GetTag metric ''host'' = Some host \<and> GetTag metric ''uri'' = None \<longrightarrow>
      ProcessMetric rt m metric = (m, Some (MissingTag ''uri''))) \<and>
   (GetTag metric ''host'' = Some host \<and> GetTag metric ''uri'' = Some uri \<and>
    GetTag metric ''status'' = None \<longrightarrow>
      ProcessMetric rt m metric =
        (m, if MatchString (regexpHost m) host \<and> MatchString (regexpURI m) uri
            then Some (MissingTag ''status'') else None))"
  by (simp add: ProcessMetric_def)

text \<open>
  The amended C7 at a record without tags, at a record with its host tag only, and
  at the record of another host without its \<open>status\<close> tag.
\<close>

theorem C7_missing_tag_errors_witness:
  "GetTag (metric_without_status\<lparr>Tags := Map.empty\<rparr>) ''host'' = None \<and>
   ProcessMetric example_runtime www_fresh (metric_without_status\<lparr>Tags := Map.empty\<rparr>) =
     (www_fresh, Some (MissingTag ''host'')) \<and>
   GetTag (metric_without_status\<lparr>Tags := [''host'' \<mapsto> ''m.xiachufang.com'']\<rparr>) ''uri'' = None \<and>
   ProcessMetric example_runtime www_fresh
     (metric_without_status\<lparr>Tags := [''host'' \<mapsto> ''m.xiachufang.com'']\<rparr>) =
     (www_fresh, Some (MissingTag ''uri'')) \<and>
   GetTag metric_without_status ''host'' = Some ''m.xiachufang.com'' \<and>
   GetTag metric_without_status ''uri'' = Some ''/'' \<and>
   GetTag metric_without_status ''status'' = None \<and>
   \<not> MatchString (regexpHost www_fresh) ''m.xiachufang.com'' \<and>
   ProcessMetric example_runtime www_fresh metric_without_status = (www_fresh, None)"
proof -
  let ?m0 = "metric_without_status\<lparr>Tags := Map.empty\<rparr>"
  let ?m1 = "metric_without_status\<lparr>Tags := [''host'' \<mapsto> ''m.xiachufang.com'']\<rparr>"
  have a: "GetTag ?m0 ''host'' = None"
    by (simp add: GetTag_def)
  have b: "GetTag ?m1 ''host'' = Some ''m.xiachufang.com''" "GetTag ?m1 ''uri'' = None"
    by (simp_all add: GetTag_def)
  have h1: "GetTag metric_without_status ''host'' = Some ''m.xiachufang.com''"
    by (simp add: GetTag_def metric_without_status_def)
  have h2: "GetTag metric_without_status ''uri'' = Some ''/''"
    by (simp add: GetTag_def metric_without_status_def)
  have h3: "GetTag metric_without_status ''status'' = None"
    by (simp add: GetTag_def metric_without_status_def)
  have n: "\<not> MatchString (regexpHost www_fresh) ''m.xiachufang.com''"
    by (simp add: www_fresh_def www_def)
  from C7_missing_tag_errors [of ?m0 example_runtime www_fresh] a
  have 1: "ProcessMetric example_runtime www_fresh ?m0 = (www_fresh, Some (MissingTag ''host''))"
    by blast
  from C7_missing_tag_errors [of ?m1 example_runtime www_fresh "''m.xiachufang.com''"] b
  have 2: "ProcessMetric example_runtime www_fresh ?m1 = (www_fresh, Some (MissingTag ''uri''))"
    by blast
  from C7_missing_tag_errors [of metric_without_status example_runtime www_fresh
      "''m.xiachufang.com''" "''/''"] h1 h2 h3 n
  have 3: "ProcessMetric example_runtime www_fresh metric_without_status = (www_fresh, None)"
    by simp
  from a b h1 h2 h3 n 1 2 3 show ?thesis by simp
qed

subsection \<open>C8: two cycles in succession\<close>

text \<open>
  C8, as stated, fails. The rule \<open>status_504 > 5\<close> of \<open>www\<close> is OK with a count of 1 and
  the fields hold a sum of 6: the first call of \<open>ShowAlerts\<close> turns the rule ALERTING
  and the second call, with no record in between, emits the OK message of its
  recovery (the case "ALERT -> OK" of the test, which waits for this message after
  a \<open>Write\<close> of no metrics).
\<close>

theorem C8_second_call_counterexample:
  "ShowAlerts example_runtime defaultTemplate
     (www (rule_504 1 False) (rule_p95 0 False) [''status_504'' \<mapsto> \<lparr>observed = [3, 3]\<rparr>]) =
   Inr (www (rule_504 2 True) (rule_p95 0 False) Map.empty,
        [''[2019-03-01T12:00:00Z] WARN: www [status_504(6) > 5]'']) \<and>
   ShowAlerts example_runtime defaultTemplate (www (rule_504 2 True) (rule_p95 0 False) Map.empty) =
   Inr (www (rule_504 0 False) (rule_p95 0 False) Map.empty,
        [''[2019-03-01T12:00:00Z] OK: www [status_504 > 5]''])"
  using ShowAlerts_first_alert ShowAlerts_recovery [of 2] by simp

text \<open>
  C8, amended: in a monitor whose rules all have a positive threshold and are silent
  without data, a second call of \<open>ShowAlerts\<close> in succession emits exactly one OK
  message for each rule that the first call left ALERTING, in the order of the
  visit, and no other message; a third call in succession emits no message and
  leaves the monitor as it is.
\<close>

theorem C8_second_call_recovers_third_is_silent:
  assumes "ShowAlerts rt template m = Inr (m1, outs1)"
      and "list_all (\<lambda>(k, a). 0 < Threshold a \<and> silent_without_data a) (alerts m)"
  shows "\<exists>m2. ShowAlerts rt template m1 =
                 Inr (m2, concat (map (\<lambda>(k, a).
                            if IsAlerting a
                            then [RenderTemplate rt (tOK template) m1
                                    (a\<lparr>Count := 0, IsAlerting := False\<rparr>) (Formula a)]
                            else []) (alerts m1))) \<and>
              ShowAlerts rt template m2 = Inr (m2, [])"
proof -
  from assms(1) obtain al1 where
    r: "range_alerts rt template m (field_params rt (mfields m)) (alerts m) = Inr (al1, outs1)"
    and m1: "m1 = resetFields (m\<lparr>alerts := al1\<rparr>)"
    by (auto simp: ShowAlerts_def split: sum.splits)
  have f1: "mfields m1 = Map.empty" and a1: "alerts m1 = al1"
    by (simp_all add: m1 resetFields_def)
  have q1: "list_all (\<lambda>(k, a). 0 < Threshold a \<and> silent_without_data a) (alerts m1)"
    unfolding a1 using range_alerts_keeps_rules [OF r assms(2)] .
  let ?f = "\<lambda>(k::string, a). (k, a\<lparr>Count := 0, IsAlerting := False\<rparr>)"
  define al2 where "al2 = map ?f (alerts m1)"
  define m2 where "m2 = resetFields (m1\<lparr>alerts := al2\<rparr>)"
  have s2: "ShowAlerts rt template m1 =
          Inr (m2, concat (map (\<lambda>(k, a).
                            if IsAlerting a
                            then [RenderTemplate rt (tOK template) m1
                                    (a\<lparr>Count := 0, IsAlerting := False\<rparr>) (Formula a)]
                            else []) (alerts m1)))"
    using range_alerts_no_params [OF q1, of rt template m1]
    by (simp add: ShowAlerts_def f1 field_params_empty m2_def al2_def)
  have f2: "mfields m2 = Map.empty" and a2: "alerts m2 = al2"
    by (simp_all add: m2_def resetFields_def)
  have keep: "list_all (\<lambda>(k, a). 0 < Threshold a \<and> silent_without_data a) (map ?f al)"
    if "list_all (\<lambda>(k, a). 0 < Threshold a \<and> silent_without_data a) al" for al
    using that by (induction al) (auto simp: silent_without_data_def)
  have q2: "list_all (\<lambda>(k, a). 0 < Threshold a \<and> silent_without_data a) al2"
    unfolding al2_def using q1 by (rule keep)
  have idem: "map ?f (map ?f al) = map ?f al" for al
    by (induction al) auto
  have quiet: "concat (map (\<lambda>(k, a).
                  if IsAlerting a
                  then [RenderTemplate rt (tOK template) m2 (a\<lparr>Count := 0, IsAlerting := False\<rparr>)
                          (Formula a)]
                  else []) (map ?f al)) = []" for al
    by (induction al) auto
  have "range_alerts rt template m2 Map.empty al2 =
          Inr (map ?f al2, concat (map (\<lambda>(k, a).
                  if IsAlerting a
                  then [RenderTemplate rt (tOK template) m2 (a\<lparr>Count := 0, IsAlerting := False\<rparr>)
                          (Formula a)]
                  else []) al2))"
    using q2 by (rule range_alerts_no_params)
  then have r3: "range_alerts rt template m2 Map.empty al2 = Inr (al2, [])"
    unfolding al2_def by (simp only: idem quiet)
  have "resetFields (m2\<lparr>alerts := al2\<rparr>) = m2"
    by (simp add: m2_def resetFields_def)
  then have "ShowAlerts rt template m2 = Inr (m2, [])"
    using r3 by (simp add: ShowAlerts_def f2 a2 field_params_empty)
  with s2 show ?thesis by blast
qed

text \<open>
  The amended C8 at the monitor \<open>www\<close> after the cycle that turns the rule
  \<open>status_504 > 5\<close> ALERTING: the monitor after the second call is the fresh one, and
  the third call emits nothing.
\<close>

theorem C8_second_call_recovers_third_is_silent_witness:
  "list_all (\<lambda>(k, a). 0 < Threshold a \<and> silent_without_data a)
     (alerts (www (rule_504 1 False) (rule_p95 0 False)
                [''status_504'' \<mapsto> \<lparr>observed = [3, 3]\<rparr>])) \<and>
   ShowAlerts example_runtime defaultTemplate (www (rule_504 0 False) (rule_p95 0 False) Map.empty) =
     Inr (www (rule_504 0 False) (rule_p95 0 False) Map.empty, [])"
proof -
  let ?m = "www (rule_504 1 False) (rule_p95 0 False) [''status_504'' \<mapsto> \<lparr>observed = [3, 3]\<rparr>]"
  let ?m1 = "www (rule_504 2 True) (rule_p95 0 False) Map.empty"
  have h2: "list_all (\<lambda>(k, a). 0 < Threshold a \<and> silent_without_data a) (alerts ?m)"
    by (simp add: www_def rule_504_def rule_p95_def silent_without_data_def greater_than_def)
  from C8_second_call_recovers_third_is_silent [OF ShowAlerts_first_alert h2]
  obtain m2 where "ShowAlerts example_runtime defaultTemplate ?m1 =
                 Inr (m2, concat (map (\<lambda>(k, a).
                            if IsAlerting a
                            then [RenderTemplate example_runtime (tOK defaultTemplate) ?m1
                                    (a\<lparr>Count := 0, IsAlerting := False\<rparr>) (Formula a)]
                            else []) (alerts ?m1)))"
     and t: "ShowAlerts example_runtime defaultTemplate m2 = Inr (m2, [])"
    by blast
  then have "m2 = www (rule_504 0 False) (rule_p95 0 False) Map.empty"
    by (simp add: ShowAlerts_recovery)
  with t h2 show ?thesis by simp
qed

subsection \<open>C9: the annotated formula and the shortened value\<close>

text \<open>
  C9 is not what the code does where the name of one variable occurs in the name of
  another. The variables are replaced one after the other, each in the text that
  the earlier replacements have produced: in \<open>status_500 > 1 && status_5000 > 2\<close>
  with the parameters 6 and 7, the replacement of \<open>status_500\<close> also rewrites the
  beginning of \<open>status_5000\<close>; after it \<open>status_5000\<close>, which has a parameter, no
  longer occurs, and it is not followed by its value 7. The ALERT message of the
  rule carries this text. What C9 says of a formula with one variable holds
  (\<open>annotate_single_variable\<close>, \<open>Evaluate_rule_504_six\<close>), and so does what it says
  of the values 950 and 1500 and of the values below 1000
  (\<open>shortenNumber_950\<close>, \<open>shortenNumber_1500\<close>, \<open>shortenNumber_below_1000\<close>).
\<close>

theorem C9_overlapping_names:
  "Vars (expression rule_two_codes) = [''status_500'', ''status_5000''] \<and>
   Evaluate example_runtime rule_two_codes
     [''status_500'' \<mapsto> VFloat64 6, ''status_5000'' \<mapsto> VFloat64 7] =
     Inr (rule_two_codes\<lparr>Count := 1\<rparr>, ''status_500(6) > 1 && status_500(6)0 > 2'') \<and>
   ShowAlerts example_runtime defaultTemplate
     (www_two_codes (rule_two_codes\<lparr>Count := 1\<rparr>)
        [''status_500'' \<mapsto> \<lparr>observed = [6]\<rparr>, ''status_5000'' \<mapsto> \<lparr>observed = [7]\<rparr>]) =
     Inr (www_two_codes (rule_two_codes\<lparr>Count := 2, IsAlerting := True\<rparr>) Map.empty,
          [''[2019-03-01T12:00:00Z] WARN: www [status_500(6) > 1 && status_500(6)0 > 2]''])"
proof -
  have e: "Evaluate example_runtime rule_two_codes
     [''status_500'' \<mapsto> VFloat64 6, ''status_5000'' \<mapsto> VFloat64 7] =
     Inr (rule_two_codes\<lparr>Count := 1\<rparr>, ''status_500(6) > 1 && status_500(6)0 > 2'')"
    by (simp add: Evaluate_def rule_two_codes_def both_greater_than_def shortenNumber_6
          shortenNumber_7 ReplaceAll_def)
  have s: "ShowAlerts example_runtime defaultTemplate
     (www_two_codes (rule_two_codes\<lparr>Count := 1\<rparr>)
        [''status_500'' \<mapsto> \<lparr>observed = [6]\<rparr>, ''status_5000'' \<mapsto> \<lparr>observed = [7]\<rparr>]) =
     Inr (www_two_codes (rule_two_codes\<lparr>Count := 2, IsAlerting := True\<rparr>) Map.empty,
          [''[2019-03-01T12:00:00Z] WARN: www [status_500(6) > 1 && status_500(6)0 > 2]''])"
    by (simp add: ShowAlerts_def www_two_codes_def field_params_def Sum_def alert_cycle_def
          Evaluate_def rule_two_codes_def both_greater_than_def shortenNumber_6 shortenNumber_7
          ReplaceAll_def resetFields_def RenderTemplate_def defaultTemplate_def
          example_runtime_def)
  from e s show ?thesis by (simp add: rule_two_codes_def both_greater_than_def)
qed

text \<open>The text that \<open>Evaluate\<close> returns for the rule over the two status codes.\<close>

theorem C9_overlapping_names_witness:
  "map_sum id snd
     (Evaluate example_runtime rule_two_codes
        [''status_500'' \<mapsto> VFloat64 6, ''status_5000'' \<mapsto> VFloat64 7]) =
   Inr ''status_500(6) > 1 && status_500(6)0 > 2''"
  using C9_overlapping_names by simp

subsection \<open>C10: the parameters of ShowAlerts and the panics of shortenNumber\<close>

text \<open>
  C10 is not what the code does for a parameter as large as \<open>10^22\<close>. Every parameter
  of \<open>ShowAlerts\<close> is a \<open>float64\<close> and the type assertion does not panic
  (\<open>field_params_float64\<close>, \<open>annotate_float64_no_type_assertion\<close>), but the rendering
  is not total: one 504 of the host with the \<open>rt_count\<close> \<open>1e22\<close> makes the sum of
  \<open>status_504\<close> \<open>1e22\<close>, \<open>shortenNumber\<close> indexes the six letters of \<open>kmgtpe\<close> at 6, and
  \<open>ShowAlerts\<close>, and \<open>Write\<close> with it, panics.
\<close>

theorem C10_index_out_of_range:
  "field_params example_runtime [''status_504'' \<mapsto> \<lparr>observed = [10 ^ 22]\<rparr>] ''status_504'' =
     Some (VFloat64 (10 ^ 22)) \<and>
   shortenNumber example_runtime (VFloat64 (10 ^ 22)) = Inl IndexOutOfRangePanic \<and>
   ShowAlerts example_runtime defaultTemplate
     (www (rule_504 0 False) (rule_p95 0 False) [''status_504'' \<mapsto> \<lparr>observed = [10 ^ 22]\<rparr>]) =
     Inl IndexOutOfRangePanic \<and>
   Write example_runtime (skyline www_fresh) [metric_huge] = Inl IndexOutOfRangePanic"
proof -
  have s: "shortenNumber example_runtime (VFloat64 (10 ^ 22)) = Inl IndexOutOfRangePanic"
    by (rule shortenNumber_1e22)
  have p: "field_params example_runtime [''status_504'' \<mapsto> \<lparr>observed = [10 ^ 22]\<rparr>]
             ''status_504'' = Some (VFloat64 (10 ^ 22))"
    by (simp add: field_params_def Sum_def)
  have a: "ShowAlerts example_runtime defaultTemplate
             (www (rule_504 0 False) (rule_p95 0 False)
                [''status_504'' \<mapsto> \<lparr>observed = [10 ^ 22]\<rparr>]) = Inl IndexOutOfRangePanic"
    using s p
    by (simp add: ShowAlerts_def www_def alert_cycle_def Evaluate_def rule_504_def
          greater_than_def)
  have "ProcessMetric example_runtime www_fresh metric_huge =
          (www (rule_504 0 False) (rule_p95 0 False) [''status_504'' \<mapsto> \<lparr>observed = [10 ^ 22]\<rparr>],
           None)"
    by (simp add: ProcessMetric_def GetTag_def GetField_def metric_huge_def www_fresh_def www_def
          example_runtime_def parse_decimal_def digit_value_def addField_def AddValue_def)
  then have "Write example_runtime (skyline www_fresh) [metric_huge] = Inl IndexOutOfRangePanic"
    using a by (simp add: Write_def skyline_def)
  with s p a show ?thesis by simp
qed

text \<open>The cycle of the monitor with the sum \<open>1e22\<close> does not return.\<close>

theorem C10_index_out_of_range_witness:
  "isl (ShowAlerts example_runtime defaultTemplate
     (www (rule_504 0 False) (rule_p95 0 False) [''status_504'' \<mapsto> \<lparr>observed = [10 ^ 22]\<rparr>]))"
  using C10_index_out_of_range by simp

end
